theory Spec2Isabelle
  imports Complex_Main
begin

section \<open>Errors and results\<close>

text \<open>
  Every exception of the Python program is a value.  A computation that may raise returns
  \<open>error + 'a\<close>, with \<open>Inl\<close> the exception.  \<open>ShapeError\<close> stands for the shape
  mismatches reported by the tensor libraries (torch's RuntimeError, einops' EinopsError).
\<close>

datatype error = TypeError | ValueError | ZeroDivisionError | ShapeError | AssertionError
  | SyntaxError | NameError

definition bind_res :: "error + 'a \<Rightarrow> ('a \<Rightarrow> error + 'b) \<Rightarrow> error + 'b" where
  "bind_res m f = (case m of Inl e \<Rightarrow> Inl e | Inr v \<Rightarrow> f v)"

section \<open>Tensors\<close>

text \<open>
  A tensor is its shape together with its elements in row-major order, as a contiguous
  torch tensor stores them.  The element type is left open: no theorem below depends on
  how floating-point numbers round.
\<close>

datatype 'a tensor = Tensor (shape: "nat list") (elems: "'a list")

definition wf_tensor :: "'a tensor \<Rightarrow> bool" where
  "wf_tensor x = (length (elems x) = prod_list (shape x))"

definition tab2 :: "nat \<Rightarrow> nat \<Rightarrow> (nat \<Rightarrow> nat \<Rightarrow> 'a) \<Rightarrow> 'a tensor" where
  "tab2 B K f = Tensor [B, K] (map (\<lambda>k. f (k div K) (k mod K)) [0..<B * K])"

definition tab3 :: "nat \<Rightarrow> nat \<Rightarrow> nat \<Rightarrow> (nat \<Rightarrow> nat \<Rightarrow> nat \<Rightarrow> 'a) \<Rightarrow> 'a tensor" where
  "tab3 B T D f =
     Tensor [B, T, D] (map (\<lambda>k. f (k div (T * D)) (k div D mod T) (k mod D)) [0..<B * T * D])"

definition at2 :: "'a tensor \<Rightarrow> nat \<Rightarrow> nat \<Rightarrow> 'a" where
  "at2 x b k = elems x ! (b * (shape x ! 1) + k)"

definition at3 :: "'a tensor \<Rightarrow> nat \<Rightarrow> nat \<Rightarrow> nat \<Rightarrow> 'a" where
  "at3 x b t d = elems x ! ((b * (shape x ! 1) + t) * (shape x ! 2) + d)"

definition at4 :: "'a tensor \<Rightarrow> nat \<Rightarrow> nat \<Rightarrow> nat \<Rightarrow> nat \<Rightarrow> 'a" where
  "at4 x b c h w =
     elems x ! (((b * (shape x ! 1) + c) * (shape x ! 2) + h) * (shape x ! 3) + w)"

text \<open>The rows of a tensor along its last dimension, of length \<open>D\<close>.\<close>

definition rows_of :: "'a tensor \<Rightarrow> nat \<Rightarrow> 'a list list" where
  "rows_of x D = map (\<lambda>r. take D (drop (r * D) (elems x))) [0..<prod_list (butlast (shape x))]"

section \<open>The library layers\<close>

text \<open>
  The layers of torch.nn and einops that the model is built from.  What a layer computes
  on the numbers is a parameter (its kernel: the value of output position \<open>i\<close> from an
  input row, the mask of a dropout call); what it does to shapes, and when it raises, is
  modelled.

  \<^item> \<open>Rearrange p1 p2\<close> is einops' \<open>Rearrange('b c (h p1) (w p2) -> b (h w) (p1 p2 c)')\<close>.
  \<^item> \<open>LayerNorm n f\<close> normalises rows of length \<open>n\<close>.
  \<^item> \<open>Linear i o f\<close> maps rows of length \<open>i\<close> to rows of length \<open>o\<close>.
  \<^item> \<open>GELU g\<close> applies \<open>g\<close> to every element.
  \<^item> \<open>Dropout m\<close> applies the mask \<open>m\<close> of one call, position by position (the identity
    in evaluation mode).
\<close>

datatype 'a layer =
    Rearrange int int
  | LayerNorm nat "'a list \<Rightarrow> nat \<Rightarrow> 'a"
  | Linear nat nat "'a list \<Rightarrow> nat \<Rightarrow> 'a"
  | GELU "'a \<Rightarrow> 'a"
  | Dropout "nat \<Rightarrow> 'a \<Rightarrow> 'a"

text \<open>The constructors allocate their parameters and raise on a negative size.\<close>

definition LayerNorm_init :: "int \<Rightarrow> ('a list \<Rightarrow> nat \<Rightarrow> 'a) \<Rightarrow> error + 'a layer" where
  "LayerNorm_init n f = (if n < 0 then Inl ShapeError else Inr (LayerNorm (nat n) f))"

definition Linear_init :: "int \<Rightarrow> int \<Rightarrow> ('a list \<Rightarrow> nat \<Rightarrow> 'a) \<Rightarrow> error + 'a layer" where
  "Linear_init i o' f =
     (if i < 0 \<or> o' < 0 then Inl ShapeError else Inr (Linear (nat i) (nat o') f))"

definition Rearrange_apply :: "int \<Rightarrow> int \<Rightarrow> 'a tensor \<Rightarrow> error + 'a tensor" where
  "Rearrange_apply p1 p2 x =
     (case shape x of
        [B, C, H, W] \<Rightarrow>
          if p1 = 0 \<or> p2 = 0 then Inl ZeroDivisionError
          else if int H mod p1 \<noteq> 0 \<or> int W mod p2 \<noteq> 0 then Inl ShapeError
          else if p1 < 0 \<or> p2 < 0 then Inl ShapeError
          else
            let P1 = nat p1; P2 = nat p2; wn = W div P2 in
            Inr (tab3 B ((H div P1) * wn) (P1 * P2 * C)
                  (\<lambda>b t j. at4 x b (j mod C) ((t div wn) * P1 + (j div C) div P2)
                                            ((t mod wn) * P2 + (j div C) mod P2)))
      | _ \<Rightarrow> Inl ShapeError)"

definition row_layer :: "nat \<Rightarrow> nat \<Rightarrow> ('a list \<Rightarrow> nat \<Rightarrow> 'a) \<Rightarrow> 'a tensor \<Rightarrow> error + 'a tensor" where
  "row_layer i o' f x =
     (if shape x \<noteq> [] \<and> last (shape x) = i
      then Inr (Tensor (butlast (shape x) @ [o'])
                  (concat (map (\<lambda>row. map (f row) [0..<o']) (rows_of x i))))
      else Inl ShapeError)"

fun layer_apply :: "'a layer \<Rightarrow> 'a tensor \<Rightarrow> error + 'a tensor" where
  "layer_apply (Rearrange p1 p2) x = Rearrange_apply p1 p2 x"
| "layer_apply (LayerNorm n f) x = row_layer n n f x"
| "layer_apply (Linear i o' f) x = row_layer i o' f x"
| "layer_apply (GELU g) x = Inr (Tensor (shape x) (map g (elems x)))"
| "layer_apply (Dropout m) x =
     Inr (Tensor (shape x) (map (\<lambda>k. m k (elems x ! k)) [0..<length (elems x)]))"

text \<open>nn.Sequential feeds the output of each layer to the next.\<close>

fun Sequential_apply :: "'a layer list \<Rightarrow> 'a tensor \<Rightarrow> error + 'a tensor" where
  "Sequential_apply [] x = Inr x"
| "Sequential_apply (l # ls) x = bind_res (layer_apply l x) (Sequential_apply ls)"

section \<open>Python values and \<open>eval\<close>\<close>

text \<open>
  The constructor arguments \<open>img_shape\<close> and \<open>patch_shape\<close> are untyped in Python.  The
  values modelled are integers, strings, bytes and bytearrays, code objects (\<open>PyCode s\<close>
  is the expression \<open>s\<close> compiled), tuples, lists and \<open>None\<close>.  Python has more (floats,
  fractions, objects of any class); the theorems below say nothing about a call with such
  a value, and none of them rests on their absence.
\<close>

datatype pyval = PyInt int | PyStr string | PyBytes string | PyByteArray string | PyCode string
  | PyTuple "pyval list" | PyList "pyval list" | PyNone

text \<open>
  Python's builtin \<open>eval\<close> takes source text (a string, bytes or a bytearray) or a code
  object and raises TypeError on anything else; what the text evaluates to is the parameter
  \<open>ev\<close>, the expression evaluator of the language.
\<close>

definition py_eval :: "(string \<Rightarrow> error + pyval) \<Rightarrow> pyval \<Rightarrow> error + pyval" where
  "py_eval ev v =
     (case v of
        PyStr s \<Rightarrow> ev s
      | PyBytes s \<Rightarrow> ev s
      | PyByteArray s \<Rightarrow> ev s
      | PyCode s \<Rightarrow> ev s
      | _ \<Rightarrow> Inl TypeError)"

text \<open>
  The assignment \<open>a, b = v\<close> iterates over \<open>v\<close> and wants exactly two items; the items of
  bytes are integers.
\<close>

definition unpack2 :: "pyval \<Rightarrow> error + (pyval \<times> pyval)" where
  "unpack2 v =
     (case v of
        PyTuple vs \<Rightarrow> (case vs of [a, b] \<Rightarrow> Inr (a, b) | _ \<Rightarrow> Inl ValueError)
      | PyList vs \<Rightarrow> (case vs of [a, b] \<Rightarrow> Inr (a, b) | _ \<Rightarrow> Inl ValueError)
      | PyStr s \<Rightarrow> (case s of [a, b] \<Rightarrow> Inr (PyStr [a], PyStr [b]) | _ \<Rightarrow> Inl ValueError)
      | PyBytes s \<Rightarrow>
          (case s of [a, b] \<Rightarrow> Inr (PyInt (of_char a), PyInt (of_char b)) | _ \<Rightarrow> Inl ValueError)
      | PyByteArray s \<Rightarrow>
          (case s of [a, b] \<Rightarrow> Inr (PyInt (of_char a), PyInt (of_char b)) | _ \<Rightarrow> Inl ValueError)
      | _ \<Rightarrow> Inl TypeError)"

text \<open>\<open>*\<close> multiplies integers and repeats a sequence; \<open>//\<close> is floor division.\<close>

definition py_mul :: "pyval \<Rightarrow> pyval \<Rightarrow> error + pyval" where
  "py_mul a b =
     (case (a, b) of
        (PyInt m, PyInt n) \<Rightarrow> Inr (PyInt (m * n))
      | (PyInt m, PyStr s) \<Rightarrow> Inr (PyStr (concat (replicate (nat m) s)))
      | (PyStr s, PyInt m) \<Rightarrow> Inr (PyStr (concat (replicate (nat m) s)))
      | (PyInt m, PyBytes s) \<Rightarrow> Inr (PyBytes (concat (replicate (nat m) s)))
      | (PyBytes s, PyInt m) \<Rightarrow> Inr (PyBytes (concat (replicate (nat m) s)))
      | (PyInt m, PyByteArray s) \<Rightarrow> Inr (PyByteArray (concat (replicate (nat m) s)))
      | (PyByteArray s, PyInt m) \<Rightarrow> Inr (PyByteArray (concat (replicate (nat m) s)))
      | (PyInt m, PyTuple vs) \<Rightarrow> Inr (PyTuple (concat (replicate (nat m) vs)))
      | (PyTuple vs, PyInt m) \<Rightarrow> Inr (PyTuple (concat (replicate (nat m) vs)))
      | (PyInt m, PyList vs) \<Rightarrow> Inr (PyList (concat (replicate (nat m) vs)))
      | (PyList vs, PyInt m) \<Rightarrow> Inr (PyList (concat (replicate (nat m) vs)))
      | _ \<Rightarrow> Inl TypeError)"

definition py_floordiv :: "pyval \<Rightarrow> pyval \<Rightarrow> error + pyval" where
  "py_floordiv a b =
     (case (a, b) of
        (PyInt m, PyInt n) \<Rightarrow> if n = 0 then Inl ZeroDivisionError else Inr (PyInt (m div n))
      | _ \<Rightarrow> Inl TypeError)"

section \<open>More tensor operations of the library\<close>

text \<open>\<open>torch.randn\<close> with the given sizes; the numbers drawn are the parameter \<open>g\<close>.\<close>

definition randn3 :: "int \<Rightarrow> int \<Rightarrow> int \<Rightarrow> (nat \<Rightarrow> nat \<Rightarrow> nat \<Rightarrow> 'a) \<Rightarrow> error + 'a tensor" where
  "randn3 a b c g =
     (if a < 0 \<or> b < 0 \<or> c < 0 then Inl ShapeError else Inr (tab3 (nat a) (nat b) (nat c) g))"

text \<open>einops' \<open>repeat(c, '1 1 d -> b 1 d', b = b)\<close>.\<close>

definition repeat_b :: "'a tensor \<Rightarrow> nat \<Rightarrow> error + 'a tensor" where
  "repeat_b c b =
     (case shape c of
        [B0, T0, D] \<Rightarrow>
          if B0 = 1 \<and> T0 = 1 then Inr (tab3 b 1 D (\<lambda>_ _ d. at3 c 0 0 d)) else Inl ShapeError
      | _ \<Rightarrow> Inl ShapeError)"

text \<open>\<open>torch.cat((a, c), dim=1)\<close> on tensors of three dimensions.\<close>

definition cat_dim1 :: "'a tensor \<Rightarrow> 'a tensor \<Rightarrow> error + 'a tensor" where
  "cat_dim1 a c =
     (case (shape a, shape c) of
        ([B1, T1, D1], [B2, T2, D2]) \<Rightarrow>
          if B1 = B2 \<and> D1 = D2
          then Inr (tab3 B1 (T1 + T2) D1
                      (\<lambda>b t d. if t < T1 then at3 a b t d else at3 c b (t - T1) d))
          else Inl ShapeError
      | _ \<Rightarrow> Inl ShapeError)"

text \<open>The slice \<open>y[:, :m]\<close> of a tensor of three dimensions, for \<open>m \<ge> 0\<close>.\<close>

definition slice_dim1 :: "'a tensor \<Rightarrow> nat \<Rightarrow> error + 'a tensor" where
  "slice_dim1 y m =
     (case shape y of
        [B, T, D] \<Rightarrow> Inr (tab3 B (min m T) D (at3 y))
      | _ \<Rightarrow> Inl ShapeError)"

text \<open>
  The in-place addition \<open>x += y\<close> on tensors of three dimensions: \<open>y\<close> is broadcast to the
  shape of \<open>x\<close>, so each dimension of \<open>y\<close> is that of \<open>x\<close> or is 1, and \<open>x\<close> keeps its shape.
\<close>

definition iadd3 :: "'a::plus tensor \<Rightarrow> 'a tensor \<Rightarrow> error + 'a tensor" where
  "iadd3 x y =
     (case (shape x, shape y) of
        ([B, T, D], [B', T', D']) \<Rightarrow>
          if (B' = B \<or> B' = 1) \<and> (T' = T \<or> T' = 1) \<and> (D' = D \<or> D' = 1)
          then Inr (tab3 B T D
                      (\<lambda>b t d. at3 x b t d +
                                at3 y (if B' = B then b else 0) (if T' = T then t else 0)
                                      (if D' = D then d else 0)))
          else Inl ShapeError
      | _ \<Rightarrow> Inl ShapeError)"

section \<open>PatchEmbedding\<close>

text \<open>
  The initial values of the parameters of a PatchEmbedding: the kernels of its three
  layers and the numbers drawn for the positional embedding and the class token.
\<close>

record 'a PatchEmbedding_params =
  pe_norm1 :: "'a list \<Rightarrow> nat \<Rightarrow> 'a"
  pe_linear :: "'a list \<Rightarrow> nat \<Rightarrow> 'a"
  pe_norm2 :: "'a list \<Rightarrow> nat \<Rightarrow> 'a"
  pe_pos :: "nat \<Rightarrow> nat \<Rightarrow> nat \<Rightarrow> 'a"
  pe_cls :: "nat \<Rightarrow> nat \<Rightarrow> nat \<Rightarrow> 'a"

record 'a PatchEmbedding =
  d_model :: int
  patch_height :: int
  patch_width :: int
  image_height :: int
  image_width :: int
  patch_dim :: int
  num_patches :: int
  to_patch_embedding :: "'a layer list"
  pos_embedding :: "'a tensor"
  cls_token :: "'a tensor"

text \<open>
  \<open>PatchEmbedding.__init__\<close> (lines 14 to 32).  The two shapes go through \<open>eval\<close>,
  \<open>patch_shape\<close> first; the products and quotients are Python's, on whatever \<open>eval\<close>
  returned; the library constructors want integer sizes.
\<close>

definition PatchEmbedding_init ::
  "(string \<Rightarrow> error + pyval) \<Rightarrow> 'a PatchEmbedding_params \<Rightarrow> int \<Rightarrow> int \<Rightarrow> pyval \<Rightarrow> pyval
     \<Rightarrow> error + 'a PatchEmbedding" where
  "PatchEmbedding_init ev w in_channels dm img_shape patch_shape =
     bind_res (py_eval ev patch_shape) (\<lambda>v1.
     bind_res (unpack2 v1) (\<lambda>(ph, pw).
     bind_res (py_eval ev img_shape) (\<lambda>v2.
     bind_res (unpack2 v2) (\<lambda>(ih, iw).
     bind_res (py_mul (PyInt in_channels) ph) (\<lambda>cp.
     bind_res (py_mul cp pw) (\<lambda>pd.
     bind_res (py_floordiv ih ph) (\<lambda>hn.
     bind_res (py_floordiv iw pw) (\<lambda>wn.
     bind_res (py_mul hn wn) (\<lambda>np.
     (case (ph, pw, ih, iw, pd, np) of
        (PyInt ph', PyInt pw', PyInt ih', PyInt iw', PyInt pd', PyInt np') \<Rightarrow>
          bind_res (LayerNorm_init pd' (pe_norm1 w)) (\<lambda>l1.
          bind_res (Linear_init pd' dm (pe_linear w)) (\<lambda>l2.
          bind_res (LayerNorm_init dm (pe_norm2 w)) (\<lambda>l3.
          bind_res (randn3 1 (np' + 1) dm (pe_pos w)) (\<lambda>pos.
          bind_res (randn3 1 1 dm (pe_cls w)) (\<lambda>cls.
          Inr \<lparr> d_model = dm, patch_height = ph', patch_width = pw',
                image_height = ih', image_width = iw',
                patch_dim = pd', num_patches = np',
                to_patch_embedding = [Rearrange ph' pw', l1, l2, l3],
                pos_embedding = pos, cls_token = cls \<rparr>)))))
      | _ \<Rightarrow> Inl TypeError))))))))))"

text \<open>
  \<open>PatchEmbedding.forward\<close> (lines 35 to 41).  Line 40 adds the same slice of the
  positional embedding whether or not CUDA is available; devices are not modelled.
\<close>

definition PatchEmbedding_forward ::
  "'a::plus PatchEmbedding \<Rightarrow> 'a tensor \<Rightarrow> error + 'a tensor" where
  "PatchEmbedding_forward pe x =
     bind_res (Sequential_apply (to_patch_embedding pe) x) (\<lambda>x1.
     (case shape x1 of
        [b, n, d] \<Rightarrow>
          bind_res (repeat_b (cls_token pe) b) (\<lambda>cls_tokens.
          bind_res (cat_dim1 cls_tokens x1) (\<lambda>x2.
          bind_res (slice_dim1 (pos_embedding pe) (n + 1)) (\<lambda>pos.
          iadd3 x2 pos)))
      | _ \<Rightarrow> Inl ValueError))"

section \<open>Attention, dropout and addition in the library\<close>

text \<open>
  \<open>nn.MultiheadAttention(embed_dim, num_heads, dropout)\<close>, with its default
  \<open>batch_first = False\<close>: the query is a tensor \<open>[L, N, E]\<close> (or \<open>[L, E]\<close> without a batch),
  key and value are \<open>[S, N, E]\<close>, and the call returns the attention output, of the shape of
  the query, and the attention weights.  The numbers are the kernels \<open>attn_out\<close> and
  \<open>attn_weights\<close>.
\<close>

record 'a MultiheadAttention =
  embed_dim :: nat
  num_heads :: nat
  dropout :: real
  attn_out :: "'a tensor \<Rightarrow> 'a tensor \<Rightarrow> 'a tensor \<Rightarrow> nat \<Rightarrow> 'a"
  attn_weights :: "'a tensor \<Rightarrow> 'a tensor \<Rightarrow> 'a tensor \<Rightarrow> nat \<Rightarrow> 'a"

definition MultiheadAttention_init ::
  "int \<Rightarrow> int \<Rightarrow> real \<Rightarrow> ('a tensor \<Rightarrow> 'a tensor \<Rightarrow> 'a tensor \<Rightarrow> nat \<Rightarrow> 'a)
     \<Rightarrow> ('a tensor \<Rightarrow> 'a tensor \<Rightarrow> 'a tensor \<Rightarrow> nat \<Rightarrow> 'a) \<Rightarrow> error + 'a MultiheadAttention" where
  "MultiheadAttention_init e h p fo fw =
     (if e \<le> 0 \<or> h \<le> 0 then Inl ValueError
      else if e mod h \<noteq> 0 then Inl AssertionError
      else Inr \<lparr> embed_dim = nat e, num_heads = nat h, dropout = p,
                 attn_out = fo, attn_weights = fw \<rparr>)"

definition weights_shape :: "nat list \<Rightarrow> nat list \<Rightarrow> nat list" where
  "weights_shape sq sk =
     (if length sq = 3 then [sq ! 1, sq ! 0, sk ! 0] else [sq ! 0, sk ! 0])"

definition MultiheadAttention_apply ::
  "'a MultiheadAttention \<Rightarrow> 'a tensor \<Rightarrow> 'a tensor \<Rightarrow> 'a tensor
     \<Rightarrow> error + ('a tensor \<times> 'a tensor)" where
  "MultiheadAttention_apply m q k v =
     (if (length (shape q) = 2 \<or> length (shape q) = 3)
         \<and> length (shape k) = length (shape q) \<and> shape v = shape k
         \<and> last (shape q) = embed_dim m \<and> last (shape k) = embed_dim m
         \<and> (length (shape q) = 2 \<or> shape k ! 1 = shape q ! 1)
      then Inr (Tensor (shape q) (map (attn_out m q k v) [0..<prod_list (shape q)]),
                Tensor (weights_shape (shape q) (shape k))
                  (map (attn_weights m q k v)
                     [0..<prod_list (weights_shape (shape q) (shape k))]))
      else Inl ShapeError)"

text \<open>\<open>nn.Dropout(p)\<close> raises ValueError unless \<open>0 \<le> p \<le> 1\<close>.\<close>

definition Dropout_init :: "real \<Rightarrow> (nat \<Rightarrow> 'a \<Rightarrow> 'a) \<Rightarrow> error + 'a layer" where
  "Dropout_init p m = (if p < 0 \<or> p > 1 then Inl ValueError else Inr (Dropout m))"

text \<open>
  The sum \<open>a + c\<close> of two tensors of the same shape.  The residual sums of the model are
  the only sums taken, and their operands always have the same shape (lemmas
  \<open>MultiHeadAttentionBlock_forward_shape\<close> and \<open>FeedForward_forward_shape\<close>), so
  broadcasting between different shapes is left out.
\<close>

definition tadd :: "'a::plus tensor \<Rightarrow> 'a tensor \<Rightarrow> error + 'a tensor" where
  "tadd a c =
     (if shape a = shape c
      then Inr (Tensor (shape a) (map (\<lambda>k. elems a ! k + elems c ! k) [0..<prod_list (shape a)]))
      else Inl ShapeError)"

text \<open>
  \<open>x.mean(dim = 1)\<close> on a tensor of three dimensions, the only ones that reach it: the
  sum over the middle dimension divided by its length.
\<close>

definition mean_dim1 :: "'a::field tensor \<Rightarrow> error + 'a tensor" where
  "mean_dim1 x =
     (case shape x of
        [B, T, K] \<Rightarrow> Inr (tab2 B K (\<lambda>b k. (\<Sum>t\<leftarrow>[0..<T]. at3 x b t k) / of_nat T))
      | _ \<Rightarrow> Inl ShapeError)"

section \<open>MultiHeadAttentionBlock\<close>

record 'a MultiHeadAttentionBlock_params =
  msa_norm :: "'a list \<Rightarrow> nat \<Rightarrow> 'a"
  msa_out :: "'a tensor \<Rightarrow> 'a tensor \<Rightarrow> 'a tensor \<Rightarrow> nat \<Rightarrow> 'a"
  msa_weights :: "'a tensor \<Rightarrow> 'a tensor \<Rightarrow> 'a tensor \<Rightarrow> nat \<Rightarrow> 'a"

record 'a MultiHeadAttentionBlock =
  normlayer :: "'a layer"
  attention :: "'a MultiheadAttention"

text \<open>\<open>MultiHeadAttentionBlock.__init__\<close> (lines 51 to 60).\<close>

definition MultiHeadAttentionBlock_init ::
  "'a MultiHeadAttentionBlock_params \<Rightarrow> int \<Rightarrow> int \<Rightarrow> real \<Rightarrow> error + 'a MultiHeadAttentionBlock" where
  "MultiHeadAttentionBlock_init w dm nh attn_dropout =
     bind_res (LayerNorm_init dm (msa_norm w)) (\<lambda>l.
     bind_res (MultiheadAttention_init dm nh attn_dropout (msa_out w) (msa_weights w)) (\<lambda>a.
     Inr \<lparr> normlayer = l, attention = a \<rparr>))"

text \<open>\<open>MultiHeadAttentionBlock.forward\<close> (lines 62 to 65).\<close>

definition MultiHeadAttentionBlock_forward ::
  "'a MultiHeadAttentionBlock \<Rightarrow> 'a tensor \<Rightarrow> error + 'a tensor" where
  "MultiHeadAttentionBlock_forward m x =
     bind_res (layer_apply (normlayer m) x) (\<lambda>x1.
     bind_res (MultiheadAttention_apply (attention m) x1 x1 x1) (\<lambda>(x2, _).
     Inr x2))"

section \<open>FeedForward\<close>

record 'a FeedForward_params =
  ff_norm :: "'a list \<Rightarrow> nat \<Rightarrow> 'a"
  ff_linear1 :: "'a list \<Rightarrow> nat \<Rightarrow> 'a"
  ff_gelu :: "'a \<Rightarrow> 'a"
  ff_drop1 :: "nat \<Rightarrow> 'a \<Rightarrow> 'a"
  ff_linear2 :: "'a list \<Rightarrow> nat \<Rightarrow> 'a"
  ff_drop2 :: "nat \<Rightarrow> 'a \<Rightarrow> 'a"

record 'a FeedForward =
  layernorm :: "'a layer"
  mlp :: "'a layer list"

text \<open>\<open>FeedForward.__init__\<close> (lines 76 to 85).\<close>

definition FeedForward_init ::
  "'a FeedForward_params \<Rightarrow> int \<Rightarrow> int \<Rightarrow> real \<Rightarrow> error + 'a FeedForward" where
  "FeedForward_init w dm mlp_size mlp_dropout =
     bind_res (LayerNorm_init dm (ff_norm w)) (\<lambda>l0.
     bind_res (Linear_init dm mlp_size (ff_linear1 w)) (\<lambda>l1.
     bind_res (Dropout_init mlp_dropout (ff_drop1 w)) (\<lambda>d1.
     bind_res (Linear_init mlp_size dm (ff_linear2 w)) (\<lambda>l2.
     bind_res (Dropout_init mlp_dropout (ff_drop2 w)) (\<lambda>d2.
     Inr \<lparr> layernorm = l0, mlp = [l1, GELU (ff_gelu w), d1, l2, d2] \<rparr>)))))"

text \<open>\<open>FeedForward.forward\<close> (lines 87 and 88).\<close>

definition FeedForward_forward :: "'a FeedForward \<Rightarrow> 'a tensor \<Rightarrow> error + 'a tensor" where
  "FeedForward_forward ff x =
     bind_res (layer_apply (layernorm ff) x) (Sequential_apply (mlp ff))"

section \<open>TransformerBlock\<close>

record 'a TransformerBlock_params =
  tb_msa :: "'a MultiHeadAttentionBlock_params"
  tb_ff :: "'a FeedForward_params"

record 'a TransformerBlock =
  msa_block :: "'a MultiHeadAttentionBlock"
  ff_block :: "'a FeedForward"

text \<open>\<open>TransformerBlock.__init__\<close> (lines 101 to 116).\<close>

definition TransformerBlock_init ::
  "'a TransformerBlock_params \<Rightarrow> int \<Rightarrow> real \<Rightarrow> real \<Rightarrow> int \<Rightarrow> int \<Rightarrow> error + 'a TransformerBlock" where
  "TransformerBlock_init w dm mlp_dropout attn_dropout mlp_size nh =
     bind_res (MultiHeadAttentionBlock_init (tb_msa w) dm nh attn_dropout) (\<lambda>m.
     bind_res (FeedForward_init (tb_ff w) dm mlp_size mlp_dropout) (\<lambda>f.
     Inr \<lparr> msa_block = m, ff_block = f \<rparr>))"

text \<open>\<open>TransformerBlock.forward\<close> (lines 118 to 122).\<close>

definition TransformerBlock_forward ::
  "'a::plus TransformerBlock \<Rightarrow> 'a tensor \<Rightarrow> error + 'a tensor" where
  "TransformerBlock_forward blk x =
     bind_res (MultiHeadAttentionBlock_forward (msa_block blk) x) (\<lambda>a.
     bind_res (tadd a x) (\<lambda>x1.
     bind_res (FeedForward_forward (ff_block blk) x1) (\<lambda>f.
     tadd f x1)))"

section \<open>ViT\<close>

record 'a ViT_params =
  vit_pe :: "'a PatchEmbedding_params"
  vit_blocks :: "nat \<Rightarrow> 'a TransformerBlock_params"
  vit_norm :: "'a list \<Rightarrow> nat \<Rightarrow> 'a"
  vit_head :: "'a list \<Rightarrow> nat \<Rightarrow> 'a"

record 'a ViT =
  patch_embedding_layer :: "'a PatchEmbedding"
  transformer_encoder :: "'a TransformerBlock list"
  classifier :: "'a layer list"

text \<open>The list comprehension of line 160: one constructor call per index, in order.\<close>

fun map_res :: "('b \<Rightarrow> error + 'c) \<Rightarrow> 'b list \<Rightarrow> error + 'c list" where
  "map_res f [] = Inr []"
| "map_res f (i # is) = bind_res (f i) (\<lambda>y. bind_res (map_res f is) (\<lambda>ys. Inr (y # ys)))"

text \<open>
  \<open>ViT.__init__\<close> (lines 144 to 168); \<open>range(n)\<close> is empty for \<open>n \<le> 0\<close>.  The arguments
  come in the order of the signature.
\<close>

definition ViT_init ::
  "(string \<Rightarrow> error + pyval) \<Rightarrow> 'a ViT_params \<Rightarrow> pyval \<Rightarrow> int \<Rightarrow> pyval \<Rightarrow> int \<Rightarrow> int \<Rightarrow> real
     \<Rightarrow> int \<Rightarrow> int \<Rightarrow> int \<Rightarrow> error + 'a ViT" where
  "ViT_init ev w img_shape in_channels patch_shape dm num_transformer_layers dropout_rate
       mlp_size nh num_classes =
     bind_res (PatchEmbedding_init ev (vit_pe w) in_channels dm img_shape patch_shape) (\<lambda>pe.
     bind_res (map_res (\<lambda>i. TransformerBlock_init (vit_blocks w i) dm dropout_rate dropout_rate
                              mlp_size nh)
                 [0..<nat num_transformer_layers]) (\<lambda>blocks.
     bind_res (LayerNorm_init dm (vit_norm w)) (\<lambda>l.
     bind_res (Linear_init dm num_classes (vit_head w)) (\<lambda>h.
     Inr \<lparr> patch_embedding_layer = pe, transformer_encoder = blocks,
           classifier = [l, h] \<rparr>))))"

text \<open>The encoder is an nn.Sequential of the blocks.\<close>

fun encoder_apply :: "'a::plus TransformerBlock list \<Rightarrow> 'a tensor \<Rightarrow> error + 'a tensor" where
  "encoder_apply [] x = Inr x"
| "encoder_apply (blk # blks) x = bind_res (TransformerBlock_forward blk x) (encoder_apply blks)"

text \<open>\<open>ViT.forward\<close> (lines 170 to 172).\<close>

definition ViT_forward :: "'a::field ViT \<Rightarrow> 'a tensor \<Rightarrow> error + 'a tensor" where
  "ViT_forward v x =
     bind_res (PatchEmbedding_forward (patch_embedding_layer v) x) (\<lambda>x1.
     bind_res (encoder_apply (transformer_encoder v) x1) (\<lambda>x2.
     bind_res (Sequential_apply (classifier v) x2) (\<lambda>x3.
     mean_dim1 x3)))"

section \<open>Rows, patches and tokens\<close>

definition row3 :: "'a tensor \<Rightarrow> nat \<Rightarrow> nat \<Rightarrow> 'a list" where
  "row3 x b t = take (shape x ! 2) (drop ((b * (shape x ! 1) + t) * (shape x ! 2)) (elems x))"

definition patch_elem :: "'a tensor \<Rightarrow> nat \<Rightarrow> nat \<Rightarrow> nat \<Rightarrow> nat \<Rightarrow> nat \<Rightarrow> 'a" where
  "patch_elem x P1 P2 b t j =
     (let C = shape x ! 1; wn = (shape x ! 3) div P2 in
      at4 x b (j mod C) ((t div wn) * P1 + (j div C) div P2) ((t mod wn) * P2 + (j div C) mod P2))"

definition flat_patch :: "'a tensor \<Rightarrow> nat \<Rightarrow> nat \<Rightarrow> nat \<Rightarrow> nat \<Rightarrow> 'a list" where
  "flat_patch x P1 P2 b t = map (patch_elem x P1 P2 b t) [0..<P1 * P2 * (shape x ! 1)]"

definition patch_token :: "'a PatchEmbedding_params \<Rightarrow> nat \<Rightarrow> 'a list \<Rightarrow> nat \<Rightarrow> 'a" where
  "patch_token w DM p d =
     pe_norm2 w (map (pe_linear w (map (pe_norm1 w p) [0..<length p])) [0..<DM]) d"

definition embedded :: "'a::plus PatchEmbedding_params \<Rightarrow> 'a PatchEmbedding \<Rightarrow> 'a tensor
    \<Rightarrow> nat \<Rightarrow> nat \<Rightarrow> nat \<Rightarrow> 'a" where
  "embedded w pe x b t d =
     (let P1 = nat (patch_height pe); P2 = nat (patch_width pe);
          n = ((shape x ! 2) div P1) * ((shape x ! 3) div P2) in
      (if t = 0 then pe_cls w 0 0 d
       else patch_token w (nat (d_model pe)) (flat_patch x P1 P2 b (t - 1)) d)
      + pe_pos w 0 (if int n \<le> num_patches pe then t else 0) d)"

section \<open>Sample objects\<close>

text \<open>
  Small concrete objects on which the theorems below are exercised: an evaluator knowing
  three literals, kernels on real numbers (identity normalisation, summing linear maps,
  an attention that returns its query, identity dropout), and a 2 by 2 image with one
  channel.
\<close>

definition ev_sample :: "string \<Rightarrow> error + pyval" where
  "ev_sample s =
     (if s = ''(1, 1)'' then Inr (PyTuple [PyInt 1, PyInt 1])
      else if s = ''(2, 2)'' then Inr (PyTuple [PyInt 2, PyInt 2])
      else if s = ''(3, 3)'' then Inr (PyTuple [PyInt 3, PyInt 3])
      else Inl SyntaxError)"

definition sample_pe_params :: "real PatchEmbedding_params" where
  "sample_pe_params =
     \<lparr> pe_norm1 = (\<lambda>row i. row ! i), pe_linear = (\<lambda>row i. sum_list row),
       pe_norm2 = (\<lambda>row i. row ! i), pe_pos = (\<lambda>b t d. of_nat t), pe_cls = (\<lambda>b t d. 10) \<rparr>"

definition sample_block_params :: "real TransformerBlock_params" where
  "sample_block_params =
     \<lparr> tb_msa = \<lparr> msa_norm = (\<lambda>row i. row ! i), msa_out = (\<lambda>q k v i. elems q ! i),
                  msa_weights = (\<lambda>q k v i. 0) \<rparr>,
       tb_ff = \<lparr> ff_norm = (\<lambda>row i. row ! i), ff_linear1 = (\<lambda>row i. sum_list row),
                 ff_gelu = (\<lambda>v. v), ff_drop1 = (\<lambda>k v. v),
                 ff_linear2 = (\<lambda>row i. sum_list row), ff_drop2 = (\<lambda>k v. v) \<rparr> \<rparr>"

definition sample_vit_params :: "real ViT_params" where
  "sample_vit_params =
     \<lparr> vit_pe = sample_pe_params, vit_blocks = (\<lambda>i. sample_block_params),
       vit_norm = (\<lambda>row i. row ! i), vit_head = (\<lambda>row i. sum_list row) \<rparr>"

definition sample_image :: "real tensor" where
  "sample_image = Tensor [1, 1, 2, 2] [1, 2, 3, 4]"

definition sample_block :: "real TransformerBlock" where
  "sample_block = projr (TransformerBlock_init sample_block_params 1 0 0 1 1)"

definition sample_vit :: "real ViT" where
  "sample_vit = projr (ViT_init ev_sample sample_vit_params (PyStr ''(2, 2)'') 1 (PyStr ''(1, 1)'')
                        1 2 0 1 1 1)"

definition sample_pe :: "real PatchEmbedding" where
  "sample_pe = projr (PatchEmbedding_init ev_sample sample_pe_params 1 1
                        (PyStr ''(2, 2)'') (PyStr ''(1, 1)''))"

definition ViT_pre_mean :: "'a::field ViT \<Rightarrow> 'a tensor \<Rightarrow> error + 'a tensor" where
  "ViT_pre_mean v x =
     bind_res
       (fold (\<lambda>blk r. bind_res r (TransformerBlock_forward blk)) (transformer_encoder v)
          (PatchEmbedding_forward (patch_embedding_layer v) x))
       (Sequential_apply (classifier v))"

text \<open>
  Three more configurations: a 3 by 3 image with 1 by 1 patches (nine patches), a 3 by 3
  image with 2 by 2 patches (the patch size does not divide the image size), and a 1 by 1
  image with 2 by 2 patches (\<open>num_patches = 0\<close>).
\<close>

definition sample_vit9 :: "real ViT" where
  "sample_vit9 = projr (ViT_init ev_sample sample_vit_params (PyStr ''(3, 3)'') 1 (PyStr ''(1, 1)'')
                         1 2 0 1 1 1)"

definition sample_pe9 :: "real PatchEmbedding" where
  "sample_pe9 = projr (PatchEmbedding_init ev_sample sample_pe_params 1 1
                         (PyStr ''(3, 3)'') (PyStr ''(1, 1)''))"

definition sample_pe33 :: "real PatchEmbedding" where
  "sample_pe33 = projr (PatchEmbedding_init ev_sample sample_pe_params 1 1
                          (PyStr ''(3, 3)'') (PyStr ''(2, 2)''))"

definition sample_image33 :: "real tensor" where
  "sample_image33 = Tensor [1, 1, 3, 3] [1, 2, 3, 4, 5, 6, 7, 8, 9]"

definition sample_pe12 :: "real PatchEmbedding" where
  "sample_pe12 = projr (PatchEmbedding_init ev_sample sample_pe_params 1 1
                          (PyStr ''(1, 1)'') (PyStr ''(2, 2)''))"

section \<open>The inputs that forward accepts\<close>

text \<open>
  The number of patches of an input, \<open>(H // patch_height) * (W // patch_width)\<close>, is the
  \<open>n\<close> of line 36.  \<open>claimed_precondition\<close> follows the words of the specification;
  \<open>forward_precondition\<close> is what the code of \<open>forward\<close> requires, read from lines 35 to 41:
  Rearrange wants positive patch sizes that divide \<open>H\<close> and \<open>W\<close>, the first LayerNorm wants
  \<open>in_channels\<close> channels, and the in-place addition of line 40 wants a slice of \<open>n + 1\<close>
  rows or of one row.
\<close>

definition num_input_patches :: "'a PatchEmbedding \<Rightarrow> 'a tensor \<Rightarrow> int" where
  "num_input_patches pe x =
     (int (shape x ! 2) div patch_height pe) * (int (shape x ! 3) div patch_width pe)"

definition claimed_precondition :: "int \<Rightarrow> 'a PatchEmbedding \<Rightarrow> 'a tensor \<Rightarrow> bool" where
  "claimed_precondition c pe x =
     (length (shape x) = 4 \<and> int (shape x ! 1) = c
      \<and> patch_height pe dvd int (shape x ! 2) \<and> patch_width pe dvd int (shape x ! 3)
      \<and> num_input_patches pe x \<le> num_patches pe)"

definition forward_precondition :: "int \<Rightarrow> 'a PatchEmbedding \<Rightarrow> 'a tensor \<Rightarrow> bool" where
  "forward_precondition c pe x =
     (length (shape x) = 4 \<and> int (shape x ! 1) = c
      \<and> 0 < patch_height pe \<and> 0 < patch_width pe
      \<and> patch_height pe dvd int (shape x ! 2) \<and> patch_width pe dvd int (shape x ! 3)
      \<and> (num_input_patches pe x \<le> num_patches pe \<or> num_patches pe = 0))"

section \<open>Basic facts\<close>

lemma bind_res_Inl [simp]: "bind_res (Inl e) f = Inl e"
  by (simp add: bind_res_def)

lemma bind_res_Inr [simp]: "bind_res (Inr v) f = f v"
  by (simp add: bind_res_def)

lemma bind_res_eq_Inr: "bind_res m f = Inr y \<longleftrightarrow> (\<exists>v. m = Inr v \<and> f v = Inr y)"
  by (cases m) simp_all

lemma shape_tab3 [simp]: "shape (tab3 B T D f) = [B, T, D]"
  by (simp add: tab3_def)

lemma shape_tab2 [simp]: "shape (tab2 B K f) = [B, K]"
  by (simp add: tab2_def)

lemma wf_tab3 [simp]: "wf_tensor (tab3 B T D f)"
  by (simp add: tab3_def wf_tensor_def)

lemma offset3_less:
  fixes b t d :: nat
  assumes "b < B" "t < T" "d < D"
  shows "(b * T + t) * D + d < B * T * D"
proof -
  have "b * T + t < B * T"
  proof -
    have "b * T + t < b * T + T" using assms by simp
    also have "\<dots> = Suc b * T" by simp
    also have "\<dots> \<le> B * T" using assms by (intro mult_le_mono1) simp
    finally show ?thesis .
  qed
  then have "Suc (b * T + t) \<le> B * T" by simp
  then have "Suc (b * T + t) * D \<le> B * T * D" by (rule mult_le_mono1)
  moreover have "(b * T + t) * D + d < Suc (b * T + t) * D" using assms by simp
  ultimately show ?thesis by linarith
qed

lemma at3_tab3:
  assumes "b < B" "t < T" "d < D"
  shows "at3 (tab3 B T D f) b t d = f b t d"
proof -
  let ?k = "(b * T + t) * D + d"
  have k: "?k < B * T * D" using assms by (rule offset3_less)
  have m: "?k mod D = d" using assms by simp
  have q: "?k div D = b * T + t" using assms by simp
  have q2: "?k div (T * D) = b"
  proof -
    have "?k div (T * D) = (?k div D) div T"
      by (simp add: div_mult2_eq mult.commute)
    also have "\<dots> = b" using q assms by simp
    finally show ?thesis .
  qed
  have q3: "?k div D mod T = t" using q assms by simp
  show ?thesis
    using k assms by (simp add: at3_def tab3_def q2 q3 m del: mult_Suc)
qed

lemma at2_tab2:
  assumes "b < B" "k < K"
  shows "at2 (tab2 B K f) b k = f b k"
proof -
  have "b * K + k < B * K"
  proof -
    have "b * K + k < Suc b * K" using assms by simp
    also have "\<dots> \<le> B * K" using assms by (intro mult_le_mono1) simp
    finally show ?thesis .
  qed
  then show ?thesis using assms by (simp add: at2_def tab2_def)
qed

lemma py_eval_tuple [simp]: "py_eval ev (PyTuple ts) = Inl TypeError"
  by (simp add: py_eval_def)

lemma py_floordiv_Inr:
  "py_floordiv a b = Inr r \<longleftrightarrow> (\<exists>m n. a = PyInt m \<and> b = PyInt n \<and> n \<noteq> 0 \<and> r = PyInt (m div n))"
  by (cases a; cases b) (auto simp: py_floordiv_def)

lemma py_mul_ints [simp]: "py_mul (PyInt m) (PyInt n) = Inr (PyInt (m * n))"
  by (simp add: py_mul_def)

lemma LayerNorm_init_Inr:
  "LayerNorm_init n f = Inr l \<longleftrightarrow> 0 \<le> n \<and> l = LayerNorm (nat n) f"
  by (auto simp: LayerNorm_init_def)

lemma Linear_init_Inr:
  "Linear_init i j f = Inr l \<longleftrightarrow> 0 \<le> i \<and> 0 \<le> j \<and> l = Linear (nat i) (nat j) f"
  by (auto simp: Linear_init_def)

lemma randn3_Inr:
  "randn3 a b c g = Inr t \<longleftrightarrow> 0 \<le> a \<and> 0 \<le> b \<and> 0 \<le> c \<and> t = tab3 (nat a) (nat b) (nat c) g"
  by (auto simp: randn3_def)

lemma PatchEmbedding_init_Inr:
  assumes "PatchEmbedding_init ev w c dm img patch = Inr pe"
  shows "\<exists>v1 v2 ph pw ih iw.
           py_eval ev patch = Inr v1 \<and> py_eval ev img = Inr v2
         \<and> unpack2 v1 = Inr (PyInt ph, PyInt pw) \<and> unpack2 v2 = Inr (PyInt ih, PyInt iw)
         \<and> ph \<noteq> 0 \<and> pw \<noteq> 0 \<and> 0 \<le> c * ph * pw \<and> 0 \<le> dm
         \<and> 0 \<le> (ih div ph) * (iw div pw) + 1
         \<and> pe = \<lparr> d_model = dm, patch_height = ph, patch_width = pw,
                  image_height = ih, image_width = iw,
                  patch_dim = c * ph * pw, num_patches = (ih div ph) * (iw div pw),
                  to_patch_embedding =
                    [Rearrange ph pw, LayerNorm (nat (c * ph * pw)) (pe_norm1 w),
                     Linear (nat (c * ph * pw)) (nat dm) (pe_linear w),
                     LayerNorm (nat dm) (pe_norm2 w)],
                  pos_embedding = tab3 1 (nat ((ih div ph) * (iw div pw) + 1)) (nat dm) (pe_pos w),
                  cls_token = tab3 1 1 (nat dm) (pe_cls w) \<rparr>"
  using assms
  unfolding PatchEmbedding_init_def
  by (auto simp: bind_res_eq_Inr py_floordiv_Inr LayerNorm_init_Inr Linear_init_Inr
        randn3_Inr split: prod.splits pyval.splits)

lemma Rearrange_apply_Inr:
  "Rearrange_apply p1 p2 x = Inr y \<longleftrightarrow>
     (\<exists>B C H W. shape x = [B, C, H, W] \<and> 0 < p1 \<and> 0 < p2
        \<and> int H mod p1 = 0 \<and> int W mod p2 = 0
        \<and> y = tab3 B ((H div nat p1) * (W div nat p2)) (nat p1 * nat p2 * C)
                (\<lambda>b t j. at4 x b (j mod C) ((t div (W div nat p2)) * nat p1 + (j div C) div nat p2)
                                  ((t mod (W div nat p2)) * nat p2 + (j div C) mod nat p2)))"
  unfolding Rearrange_apply_def
  by (auto simp: Let_def split: list.splits)

lemma row_layer_Inr:
  "row_layer i j f x = Inr y \<longleftrightarrow>
     shape x \<noteq> [] \<and> last (shape x) = i
     \<and> y = Tensor (butlast (shape x) @ [j]) (concat (map (\<lambda>row. map (f row) [0..<j]) (rows_of x i)))"
  by (auto simp: row_layer_def)

lemma row_layer_shape3:
  "shape x = [B, T, D] \<Longrightarrow> row_layer i j f x = Inr y \<Longrightarrow> D = i \<and> shape y = [B, T, j]"
  by (auto simp: row_layer_Inr)

lemma row_layer_ok3:
  "shape x = [B, T, D] \<Longrightarrow> \<exists>y. row_layer D j f x = Inr y \<and> shape y = [B, T, j]"
  by (auto simp: row_layer_Inr)

lemma patch_dim_channels:
  fixes c ph pw :: int and C :: nat
  assumes "0 < ph" "0 < pw" "0 \<le> c * ph * pw"
  shows "nat ph * nat pw * C = nat (c * ph * pw) \<longleftrightarrow> int C = c"
proof -
  have pos: "0 < ph * pw" using assms by simp
  have "nat ph * nat pw * C = nat (c * ph * pw) \<longleftrightarrow> int (nat ph * nat pw * C) = c * ph * pw"
    using assms(3) by (metis nat_int int_nat_eq)
  also have "int (nat ph * nat pw * C) = ph * pw * int C" using assms by simp
  also have "ph * pw * int C = c * ph * pw \<longleftrightarrow> int C = c"
    using assms by (simp add: mult.commute mult.left_commute)
  finally show ?thesis .
qed

lemma index3_in_range:
  fixes k :: nat
  assumes "k < B * T * D"
  shows "k div (T * D) < B \<and> k div D mod T < T \<and> k mod D < D"
proof -
  have D: "0 < D" and T: "0 < T" using assms by (cases D; cases T; simp)+
  have "k < B * (T * D)" using assms by (simp add: mult.assoc)
  then have "k div (T * D) < B" using D T by (simp add: less_mult_imp_div_less)
  then show ?thesis using D T by simp
qed

lemma tab3_cong:
  assumes "\<And>b t d. b < B \<Longrightarrow> t < T \<Longrightarrow> d < D \<Longrightarrow> f b t d = g b t d"
  shows "tab3 B T D f = tab3 B T D g"
  unfolding tab3_def using assms index3_in_range by auto

lemma repeat_b_tab3 [simp]:
  "repeat_b (tab3 (Suc 0) (Suc 0) D f) b =
     Inr (tab3 b (Suc 0) D (\<lambda>_ _ d. at3 (tab3 (Suc 0) (Suc 0) D f) 0 0 d))"
  by (simp add: repeat_b_def)

lemma slice_dim1_tab3 [simp]:
  "slice_dim1 (tab3 B T D f) m = Inr (tab3 B (min m T) D (at3 (tab3 B T D f)))"
  by (simp add: slice_dim1_def)

lemma PatchEmbedding_forward_char:
  fixes pe :: "'a::plus PatchEmbedding"
  assumes L: "Sequential_apply (to_patch_embedding pe) x = Inr toks"
    and cls: "cls_token pe = tab3 1 1 DM cf"
    and pos: "pos_embedding pe = tab3 1 NP1 DM pf"
    and sh: "shape toks = [B, n, DM]"
  shows "PatchEmbedding_forward pe x =
           (if n + 1 \<le> NP1 \<or> NP1 = 1
            then Inr (tab3 B (n + 1) DM
                   (\<lambda>b t d. (if t = 0 then cf 0 0 d else at3 toks b (t - 1) d)
                            + pf 0 (if n + 1 \<le> NP1 then t else 0) d))
            else Inl ShapeError)"
proof (cases "n + 1 \<le> NP1 \<or> NP1 = 1")
  case False
  then have "min (n + 1) NP1 \<noteq> Suc n" "min (n + 1) NP1 \<noteq> Suc 0" by auto
  then show ?thesis using False
    by (simp add: PatchEmbedding_forward_def L sh cls pos cat_dim1_def iadd3_def)
next
  case True
  have m: "min (n + 1) NP1 = Suc n \<or> min (n + 1) NP1 = Suc 0" using True by auto
  have NP1: "0 < NP1" using True by auto
  show ?thesis using True m
    apply (simp add: PatchEmbedding_forward_def L sh cls pos cat_dim1_def iadd3_def)
    apply (rule tab3_cong)
    using NP1 apply (auto simp: at3_tab3)
    done
qed

lemma upt_shift: "[n..<n + m] = map (\<lambda>d. n + d) [0..<m]"
proof -
  have "map (\<lambda>i. i + n) [0..<m] = [n..<m + n]" by (rule map_add_upt)
  moreover have "(\<lambda>i. i + n) = (\<lambda>d. n + d)" by (rule ext) simp
  moreover have "m + n = n + m" by simp
  ultimately show ?thesis by metis
qed

lemma concat_map_upt:
  "concat (map (\<lambda>r. map (g r) [0..<j]) [0..<N]) = map (\<lambda>k. g (k div j) (k mod j)) [0..<N * j]"
proof (induction N)
  case 0
  show ?case by simp
next
  case (Suc N)
  have e: "Suc N * j = N * j + j" by simp
  have s: "[0..<N * j + j] = [0..<N * j] @ [N * j..<N * j + j]"
    by (rule upt_add_eq_append) simp
  have last: "map (\<lambda>k. g (k div j) (k mod j)) [N * j..<N * j + j] = map (g N) [0..<j]"
  proof -
    have "map (\<lambda>k. g (k div j) (k mod j)) [N * j..<N * j + j]
               = map (\<lambda>d. g ((N * j + d) div j) ((N * j + d) mod j)) [0..<j]"
      unfolding upt_shift[of "N * j" j] by (simp only: map_map comp_def)
    also have "\<dots> = map (g N) [0..<j]"
      by (rule map_cong) auto
    finally show ?thesis .
  qed
  have "concat (map (\<lambda>r. map (g r) [0..<j]) [0..<Suc N])
        = concat (map (\<lambda>r. map (g r) [0..<j]) [0..<N]) @ map (g N) [0..<j]"
    by simp
  also have "\<dots> = map (\<lambda>k. g (k div j) (k mod j)) [0..<N * j] @ map (g N) [0..<j]"
    by (simp only: Suc.IH)
  also have "\<dots> = map (\<lambda>k. g (k div j) (k mod j)) ([0..<N * j] @ [N * j..<N * j + j])"
    by (simp only: map_append last)
  finally show ?case by (simp only: e s)
qed

lemma row_layer_tab3:
  assumes "shape x = [B, T, D]"
  shows "row_layer D j f x = Inr (tab3 B T j (\<lambda>b t k. f (row3 x b t) k))"
proof -
  have "concat (map (\<lambda>row. map (f row) [0..<j]) (rows_of x D))
        = concat (map (\<lambda>r. map (f (take D (drop (r * D) (elems x)))) [0..<j]) [0..<B * T])"
    using assms by (simp add: rows_of_def comp_def)
  also have "\<dots> = map (\<lambda>k. f (take D (drop ((k div j) * D) (elems x))) (k mod j)) [0..<B * T * j]"
    by (rule concat_map_upt)
  also have "\<dots> = map (\<lambda>k. f (row3 x (k div (T * j)) (k div j mod T)) (k mod j)) [0..<B * T * j]"
  proof (rule map_cong[OF refl])
    fix k
    have "(k div (T * j)) * T + k div j mod T = k div j"
      by (metis div_mult2_eq div_mult_mod_eq mult.commute)
    then show "f (take D (drop ((k div j) * D) (elems x))) (k mod j)
          = f (row3 x (k div (T * j)) (k div j mod T)) (k mod j)"
      using assms by (simp add: row3_def)
  qed
  finally show ?thesis using assms by (simp add: row_layer_def tab3_def)
qed

lemma row3_tab3:
  assumes "b < B" "t < T"
  shows "row3 (tab3 B T D f) b t = map (f b t) [0..<D]"
proof -
  let ?F = "\<lambda>k. f (k div (T * D)) (k div D mod T) (k mod D)"
  let ?o = "(b * T + t) * D"
  have le: "?o + D \<le> B * T * D"
  proof -
    have "b * T + t < B * T"
    proof -
      have "b * T + t < Suc b * T" using assms by simp
      also have "\<dots> \<le> B * T" using assms by (intro mult_le_mono1) simp
      finally show ?thesis .
    qed
    then have "Suc (b * T + t) * D \<le> B * T * D" by (intro mult_le_mono1) simp
    then show ?thesis by simp
  qed
  have "row3 (tab3 B T D f) b t = take D (drop ?o (map ?F [0..<B * T * D]))"
    by (simp add: row3_def tab3_def)
  also have "\<dots> = map ?F (take D (drop ?o [0..<B * T * D]))"
    by (simp add: take_map drop_map)
  also have "take D (drop ?o [0..<B * T * D]) = [?o..<?o + D]"
    using le by (simp add: take_upt)
  also have "[?o..<?o + D] = map (\<lambda>d. ?o + d) [0..<D]"
    by (rule upt_shift)
  also have "map ?F (map (\<lambda>d. ?o + d) [0..<D]) = map (f b t) [0..<D]"
  proof -
    have "\<And>d. d < D \<Longrightarrow> ?F (?o + d) = f b t d"
    proof -
      fix d assume d: "d < D"
      have m: "(?o + d) mod D = d" using d by simp
      have q: "(?o + d) div D = b * T + t" using d by simp
      have q2: "(?o + d) div (T * D) = b"
      proof -
        have "(?o + d) div (T * D) = ((?o + d) div D) div T"
          by (simp add: div_mult2_eq mult.commute)
        then show ?thesis using q assms by simp
      qed
      show "?F (?o + d) = f b t d" unfolding q2 q m using assms by simp
    qed
    then show ?thesis by (simp only: map_map comp_def) (rule map_cong, auto)
  qed
  finally show ?thesis .
qed

lemma row_layer_on_tab3:
  "row_layer D j f (tab3 B T D g) = Inr (tab3 B T j (\<lambda>b t k. f (map (g b t) [0..<D]) k))"
proof -
  have "row_layer D j f (tab3 B T D g) = Inr (tab3 B T j (\<lambda>b t k. f (row3 (tab3 B T D g) b t) k))"
    by (rule row_layer_tab3) simp
  moreover have "tab3 B T j (\<lambda>b t k. f (row3 (tab3 B T D g) b t) k)
                 = tab3 B T j (\<lambda>b t k. f (map (g b t) [0..<D]) k)"
    by (rule tab3_cong) (simp add: row3_tab3)
  ultimately show ?thesis by simp
qed

lemma row_layer_tab3_Inr:
  "row_layer i j f (tab3 B T D g) = Inr y \<longleftrightarrow>
     D = i \<and> y = tab3 B T j (\<lambda>b t k. f (map (g b t) [0..<D]) k)"
proof (cases "D = i")
  case True
  then show ?thesis using row_layer_on_tab3[of D j f B T g] by auto
next
  case False
  then show ?thesis by (simp add: row_layer_def)
qed

lemma Rearrange_apply_Inr':
  "Rearrange_apply p1 p2 x = Inr y \<longleftrightarrow>
     (\<exists>B C H W. shape x = [B, C, H, W] \<and> 0 < p1 \<and> 0 < p2
        \<and> int H mod p1 = 0 \<and> int W mod p2 = 0
        \<and> y = tab3 B ((H div nat p1) * (W div nat p2)) (nat p1 * nat p2 * C)
                (patch_elem x (nat p1) (nat p2)))"
  unfolding Rearrange_apply_Inr patch_elem_def
  by (auto simp: Let_def)

lemma to_patch_embedding_Inr:
  "Sequential_apply [Rearrange ph pw, LayerNorm PD k1, Linear PD DM k2, LayerNorm DM k3] x = Inr toks
   \<longleftrightarrow> (\<exists>B C H W. shape x = [B, C, H, W] \<and> 0 < ph \<and> 0 < pw
          \<and> int H mod ph = 0 \<and> int W mod pw = 0 \<and> nat ph * nat pw * C = PD
          \<and> toks = tab3 B ((H div nat ph) * (W div nat pw)) DM
                     (\<lambda>b t d. k3 (map (k2 (map (k1 (map (patch_elem x (nat ph) (nat pw) b t) [0..<PD]))
                                               [0..<PD]))
                                     [0..<DM]) d))"
  by (auto simp: bind_res_eq_Inr Rearrange_apply_Inr' row_layer_tab3_Inr)

lemma PatchEmbedding_forward_Inr:
  fixes w :: "'a::plus PatchEmbedding_params"
  assumes init: "PatchEmbedding_init ev w c dm img patch = Inr pe"
  shows "PatchEmbedding_forward pe x = Inr y \<longleftrightarrow>
           (\<exists>B C H W. shape x = [B, C, H, W] \<and> int C = c
              \<and> 0 < patch_height pe \<and> 0 < patch_width pe
              \<and> int H mod patch_height pe = 0 \<and> int W mod patch_width pe = 0
              \<and> (int ((H div nat (patch_height pe)) * (W div nat (patch_width pe))) \<le> num_patches pe
                  \<or> num_patches pe = 0)
              \<and> y = tab3 B ((H div nat (patch_height pe)) * (W div nat (patch_width pe)) + 1)
                       (nat dm) (embedded w pe x))"
    (is "?L \<longleftrightarrow> ?R")
proof -
  from PatchEmbedding_init_Inr[OF init] obtain ph pw ih iw where
    nz: "ph \<noteq> 0" "pw \<noteq> 0" and pd: "0 \<le> c * ph * pw" and dm: "0 \<le> dm"
    and np: "0 \<le> (ih div ph) * (iw div pw) + 1"
    and pe: "pe = \<lparr> d_model = dm, patch_height = ph, patch_width = pw,
                  image_height = ih, image_width = iw,
                  patch_dim = c * ph * pw, num_patches = (ih div ph) * (iw div pw),
                  to_patch_embedding =
                    [Rearrange ph pw, LayerNorm (nat (c * ph * pw)) (pe_norm1 w),
                     Linear (nat (c * ph * pw)) (nat dm) (pe_linear w),
                     LayerNorm (nat dm) (pe_norm2 w)],
                  pos_embedding = tab3 1 (nat ((ih div ph) * (iw div pw) + 1)) (nat dm) (pe_pos w),
                  cls_token = tab3 1 1 (nat dm) (pe_cls w) \<rparr>"
    by blast
  define NP where "NP = (ih div ph) * (iw div pw)"
  define PD where "PD = nat (c * ph * pw)"
  have f: "patch_height pe = ph" "patch_width pe = pw" "num_patches pe = NP" "d_model pe = dm"
    "to_patch_embedding pe = [Rearrange ph pw, LayerNorm PD (pe_norm1 w),
                     Linear PD (nat dm) (pe_linear w), LayerNorm (nat dm) (pe_norm2 w)]"
    "pos_embedding pe = tab3 1 (nat (NP + 1)) (nat dm) (pe_pos w)"
    "cls_token pe = tab3 1 1 (nat dm) (pe_cls w)"
    by (simp_all add: pe NP_def PD_def)
  have np': "0 \<le> NP + 1" using np by (simp add: NP_def)
  have key: "\<And>B C H W. shape x = [B, C, H, W] \<Longrightarrow> 0 < ph \<Longrightarrow> 0 < pw
      \<Longrightarrow> int H mod ph = 0 \<Longrightarrow> int W mod pw = 0 \<Longrightarrow> int C = c \<Longrightarrow>
      PatchEmbedding_forward pe x =
        (if int ((H div nat ph) * (W div nat pw)) \<le> NP \<or> NP = 0
         then Inr (tab3 B ((H div nat ph) * (W div nat pw) + 1) (nat dm) (embedded w pe x))
         else Inl ShapeError)"
  proof -
    fix B C H W
    assume sh: "shape x = [B, C, H, W]" and pos: "0 < ph" "0 < pw"
      and dv: "int H mod ph = 0" "int W mod pw = 0" and C: "int C = c"
    define n where "n = (H div nat ph) * (W div nat pw)"
    define tokf where "tokf = (\<lambda>b t d. pe_norm2 w (map (pe_linear w (map (pe_norm1 w
                     (map (patch_elem x (nat ph) (nat pw) b t) [0..<PD])) [0..<PD])) [0..<nat dm]) d)"
    define toks where "toks = tab3 B n (nat dm) tokf"
    have PDC: "nat ph * nat pw * C = PD"
      unfolding PD_def using patch_dim_channels[OF pos pd] C by simp
    have L: "Sequential_apply (to_patch_embedding pe) x = Inr toks"
      unfolding f to_patch_embedding_Inr toks_def tokf_def n_def
      using sh pos dv PDC by simp
    have sht: "shape toks = [B, n, nat dm]" by (simp add: toks_def)
    have c1: "(n + 1 \<le> nat (NP + 1) \<or> nat (NP + 1) = 1) \<longleftrightarrow> (int n \<le> NP \<or> NP = 0)"
      using np' by auto
    have c2: "n + 1 \<le> nat (NP + 1) \<longleftrightarrow> int n \<le> NP" using np' by auto
    have eq: "tab3 B (n + 1) (nat dm)
                   (\<lambda>b t d. (if t = 0 then pe_cls w 0 0 d else at3 toks b (t - 1) d)
                            + pe_pos w 0 (if n + 1 \<le> nat (NP + 1) then t else 0) d)
              = tab3 B (n + 1) (nat dm) (embedded w pe x)"
    proof (rule tab3_cong)
      fix b t d assume b: "b < B" and t: "t < n + 1" and d: "d < nat dm"
      have tk: "t \<noteq> 0 \<Longrightarrow> at3 toks b (t - 1) d
                  = patch_token w (nat dm) (flat_patch x (nat ph) (nat pw) b (t - 1)) d"
      proof -
        assume "t \<noteq> 0"
        then have "t - 1 < n" using t by simp
        then have "at3 toks b (t - 1) d = tokf b (t - 1) d"
          unfolding toks_def using b d by (intro at3_tab3)
        also have "\<dots> = patch_token w (nat dm) (flat_patch x (nat ph) (nat pw) b (t - 1)) d"
          using PDC sh by (simp add: tokf_def patch_token_def flat_patch_def)
        finally show ?thesis .
      qed
      show "(if t = 0 then pe_cls w 0 0 d else at3 toks b (t - 1) d)
                            + pe_pos w 0 (if n + 1 \<le> nat (NP + 1) then t else 0) d
            = embedded w pe x b t d"
      proof -
        have emb: "embedded w pe x b t d =
              (if t = 0 then pe_cls w 0 0 d
               else patch_token w (nat dm) (flat_patch x (nat ph) (nat pw) b (t - 1)) d)
              + pe_pos w 0 (if int n \<le> NP then t else 0) d"
          by (simp add: embedded_def f sh n_def Let_def)
        show ?thesis unfolding emb c2 using tk by simp
      qed
    qed
    show "PatchEmbedding_forward pe x =
        (if int ((H div nat ph) * (W div nat pw)) \<le> NP \<or> NP = 0
         then Inr (tab3 B ((H div nat ph) * (W div nat pw) + 1) (nat dm) (embedded w pe x))
         else Inl ShapeError)"
      unfolding PatchEmbedding_forward_char[OF L f(7) f(6) sht] c1 eq
      by (simp add: n_def)
  qed
  show ?thesis
  proof
    assume L: ?L
    then obtain toks where t: "Sequential_apply (to_patch_embedding pe) x = Inr toks"
      by (auto simp: PatchEmbedding_forward_def bind_res_eq_Inr)
    then obtain B C H W where sh: "shape x = [B, C, H, W]" and pos: "0 < ph" "0 < pw"
      and dv: "int H mod ph = 0" "int W mod pw = 0" and PDC: "nat ph * nat pw * C = PD"
      unfolding f to_patch_embedding_Inr by (elim exE conjE)
    have C: "int C = c" using patch_dim_channels[OF pos pd] PDC by (simp add: PD_def)
    from key[OF sh pos dv C] L show ?R
      unfolding f using sh pos dv C by (auto split: if_splits)
  next
    assume ?R
    then show ?L unfolding f using key by auto
  qed
qed

lemma MultiheadAttention_init_Inr:
  "MultiheadAttention_init e h p fo fw = Inr a \<longleftrightarrow>
     0 < e \<and> 0 < h \<and> e mod h = 0
     \<and> a = \<lparr> embed_dim = nat e, num_heads = nat h, dropout = p, attn_out = fo, attn_weights = fw \<rparr>"
  by (auto simp: MultiheadAttention_init_def)

lemma Dropout_init_Inr: "Dropout_init p m = Inr l \<longleftrightarrow> 0 \<le> p \<and> p \<le> 1 \<and> l = Dropout m"
  by (auto simp: Dropout_init_def)

lemma MultiHeadAttentionBlock_init_Inr:
  "MultiHeadAttentionBlock_init w dm nh p = Inr m \<longleftrightarrow>
     0 < dm \<and> 0 < nh \<and> dm mod nh = 0
     \<and> m = \<lparr> normlayer = LayerNorm (nat dm) (msa_norm w),
             attention = \<lparr> embed_dim = nat dm, num_heads = nat nh, dropout = p,
                           attn_out = msa_out w, attn_weights = msa_weights w \<rparr> \<rparr>"
  by (auto simp: MultiHeadAttentionBlock_init_def bind_res_eq_Inr LayerNorm_init_Inr
        MultiheadAttention_init_Inr)

lemma FeedForward_init_Inr:
  "FeedForward_init w dm ms p = Inr ff \<longleftrightarrow>
     0 \<le> dm \<and> 0 \<le> ms \<and> 0 \<le> p \<and> p \<le> 1
     \<and> ff = \<lparr> layernorm = LayerNorm (nat dm) (ff_norm w),
              mlp = [Linear (nat dm) (nat ms) (ff_linear1 w), GELU (ff_gelu w),
                     Dropout (ff_drop1 w), Linear (nat ms) (nat dm) (ff_linear2 w),
                     Dropout (ff_drop2 w)] \<rparr>"
  by (auto simp: FeedForward_init_def bind_res_eq_Inr LayerNorm_init_Inr Linear_init_Inr
        Dropout_init_Inr)

lemma TransformerBlock_init_Inr:
  "TransformerBlock_init w dm pm pa ms nh = Inr blk \<longleftrightarrow>
     (\<exists>m f. MultiHeadAttentionBlock_init (tb_msa w) dm nh pa = Inr m
          \<and> FeedForward_init (tb_ff w) dm ms pm = Inr f
          \<and> blk = \<lparr> msa_block = m, ff_block = f \<rparr>)"
  by (auto simp: TransformerBlock_init_def bind_res_eq_Inr)

lemma MultiheadAttention_apply_self:
  "MultiheadAttention_apply a x x x = Inr (y, wts) \<longleftrightarrow>
     (length (shape x) = 2 \<or> length (shape x) = 3) \<and> last (shape x) = embed_dim a
     \<and> y = Tensor (shape x) (map (attn_out a x x x) [0..<prod_list (shape x)])
     \<and> wts = Tensor (weights_shape (shape x) (shape x))
               (map (attn_weights a x x x) [0..<prod_list (weights_shape (shape x) (shape x))])"
  by (auto simp: MultiheadAttention_apply_def)

lemma row_layer_same_shape:
  "row_layer i i f x = Inr y \<Longrightarrow> shape y = shape x"
  by (auto simp: row_layer_Inr append_butlast_last_id)

lemma row_layer_shape:
  "row_layer i j f x = Inr y \<Longrightarrow>
     shape x = butlast (shape x) @ [i] \<and> shape y = butlast (shape x) @ [j]"
  by (auto simp: row_layer_Inr append_butlast_last_id)

lemma MultiHeadAttentionBlock_forward_shape:
  assumes "MultiHeadAttentionBlock_init w dm nh p = Inr m"
    and "MultiHeadAttentionBlock_forward m x = Inr y"
  shows "shape y = shape x"
proof -
  from assms obtain x1 wts where
    1: "row_layer (nat dm) (nat dm) (msa_norm w) x = Inr x1"
    and 2: "MultiheadAttention_apply (attention m) x1 x1 x1 = Inr (y, wts)"
    by (auto simp: MultiHeadAttentionBlock_init_Inr MultiHeadAttentionBlock_forward_def
        bind_res_eq_Inr)
  from 2 have "shape y = shape x1" by (simp add: MultiheadAttention_apply_self)
  with row_layer_same_shape[OF 1] show ?thesis by simp
qed

lemma FeedForward_forward_shape:
  assumes "FeedForward_init w dm ms p = Inr ff"
    and "FeedForward_forward ff x = Inr y"
  shows "shape y = shape x"
proof -
  from assms obtain a b where
    1: "row_layer (nat dm) (nat dm) (ff_norm w) x = Inr a"
    and 2: "row_layer (nat dm) (nat ms) (ff_linear1 w) a = Inr b"
    and 3: "row_layer (nat ms) (nat dm) (ff_linear2 w)
              (Tensor (shape b) (map (\<lambda>k. ff_drop1 w k (map (ff_gelu w) (elems b) ! k))
                                   [0..<length (elems b)])) = Inr
              (Tensor (shape y) (elems (projr (row_layer (nat ms) (nat dm) (ff_linear2 w)
              (Tensor (shape b) (map (\<lambda>k. ff_drop1 w k (map (ff_gelu w) (elems b) ! k))
                                   [0..<length (elems b)]))))))"
    by (auto simp: FeedForward_init_Inr FeedForward_forward_def bind_res_eq_Inr)
  from row_layer_shape[OF 3] row_layer_shape[OF 2] row_layer_same_shape[OF 1]
  show ?thesis by simp
qed

lemma tadd_Inr:
  "tadd a c = Inr y \<longleftrightarrow>
     shape a = shape c
     \<and> y = Tensor (shape a) (map (\<lambda>k. elems a ! k + elems c ! k) [0..<prod_list (shape a)])"
  by (auto simp: tadd_def)

lemma TransformerBlock_forward_shape:
  assumes "TransformerBlock_init w dm pm pa ms nh = Inr blk"
    and "TransformerBlock_forward blk x = Inr y"
  shows "shape y = shape x"
proof -
  from assms(1) obtain m f where m: "MultiHeadAttentionBlock_init (tb_msa w) dm nh pa = Inr m"
    and f: "FeedForward_init (tb_ff w) dm ms pm = Inr f"
    and blk: "blk = \<lparr> msa_block = m, ff_block = f \<rparr>"
    unfolding TransformerBlock_init_Inr by blast
  from assms(2) obtain a x1 g where
    "MultiHeadAttentionBlock_forward m x = Inr a" "tadd a x = Inr x1"
    "FeedForward_forward f x1 = Inr g" "tadd g x1 = Inr y"
    unfolding TransformerBlock_forward_def blk by (auto simp: bind_res_eq_Inr)
  then show ?thesis by (auto simp: tadd_Inr)
qed

lemma mlp_shape:
  assumes "Sequential_apply [Linear i j f1, GELU g, Dropout m1, Linear j i f2, Dropout m2] a = Inr y"
  shows "shape y = shape a"
proof -
  from assms obtain b c d where 1: "row_layer i j f1 a = Inr b"
    and 2: "row_layer j i f2 c = Inr d" and 3: "shape c = shape b" and 4: "shape y = shape d"
    by (auto simp: bind_res_eq_Inr)
  from row_layer_shape[OF 1] row_layer_shape[OF 2] 3 4 show ?thesis by simp
qed

lemma map_res_Inr:
  "map_res f xs = Inr ys \<longleftrightarrow> length ys = length xs \<and> (\<forall>i<length xs. f (xs ! i) = Inr (ys ! i))"
proof (induction xs arbitrary: ys)
  case Nil
  show ?case by auto
next
  case (Cons a xs)
  show ?case
  proof (cases ys)
    case Nil
    then show ?thesis by (auto simp: bind_res_eq_Inr)
  next
    case (Cons y ys')
    show ?thesis unfolding Cons
      by (auto simp: bind_res_eq_Inr Cons.IH nth_Cons split: nat.splits)
  qed
qed

lemma ViT_init_Inr:
  "ViT_init ev w img c patch dm n p ms nh nc = Inr v \<longleftrightarrow>
     (\<exists>pe blocks. PatchEmbedding_init ev (vit_pe w) c dm img patch = Inr pe
        \<and> length blocks = nat n
        \<and> (\<forall>i<nat n. TransformerBlock_init (vit_blocks w i) dm p p ms nh = Inr (blocks ! i))
        \<and> 0 \<le> dm \<and> 0 \<le> nc
        \<and> v = \<lparr> patch_embedding_layer = pe, transformer_encoder = blocks,
                 classifier = [LayerNorm (nat dm) (vit_norm w), Linear (nat dm) (nat nc) (vit_head w)] \<rparr>)"
  by (auto simp: ViT_init_def bind_res_eq_Inr map_res_Inr LayerNorm_init_Inr Linear_init_Inr)

lemma encoder_apply_shape:
  assumes "\<forall>blk\<in>set blks. \<exists>w. TransformerBlock_init w dm pm pa ms nh = Inr blk"
    and "encoder_apply blks x = Inr y"
  shows "shape y = shape x"
  using assms
proof (induction blks arbitrary: x)
  case Nil
  then show ?case by simp
next
  case (Cons blk blks)
  from Cons.prems(2) obtain x1 where 1: "TransformerBlock_forward blk x = Inr x1"
    and 2: "encoder_apply blks x1 = Inr y"
    by (auto simp: bind_res_eq_Inr)
  from Cons.prems(1) obtain w where "TransformerBlock_init w dm pm pa ms nh = Inr blk" by auto
  from TransformerBlock_forward_shape[OF this 1] Cons.IH[OF _ 2] Cons.prems(1)
  show ?case by simp
qed

lemma index2_in_range:
  fixes k :: nat
  assumes "k < B * K"
  shows "k div K < B \<and> k mod K < K"
proof -
  have K: "0 < K" using assms by (cases K) simp_all
  then show ?thesis using assms by (simp add: less_mult_imp_div_less)
qed

lemma tab2_cong:
  assumes "\<And>b k. b < B \<Longrightarrow> k < K \<Longrightarrow> f b k = g b k"
  shows "tab2 B K f = tab2 B K g"
  unfolding tab2_def using assms index2_in_range by auto

lemma MultiHeadAttentionBlock_forward_ok:
  assumes "MultiHeadAttentionBlock_init w dm nh p = Inr m" and "shape x = [B, T, nat dm]"
  shows "\<exists>y. MultiHeadAttentionBlock_forward m x = Inr y"
  using assms
  by (auto simp: MultiHeadAttentionBlock_init_Inr MultiHeadAttentionBlock_forward_def
        row_layer_def MultiheadAttention_apply_def)

lemma FeedForward_forward_ok:
  assumes "FeedForward_init w dm ms p = Inr ff" and "shape x = [B, T, nat dm]"
  shows "\<exists>y. FeedForward_forward ff x = Inr y"
  using assms
  by (auto simp: FeedForward_init_Inr FeedForward_forward_def row_layer_def)

lemma TransformerBlock_forward_ok:
  assumes init: "TransformerBlock_init w dm pm pa ms nh = Inr blk" and sh: "shape x = [B, T, nat dm]"
  shows "\<exists>y. TransformerBlock_forward blk x = Inr y"
proof -
  from init obtain m f where m: "MultiHeadAttentionBlock_init (tb_msa w) dm nh pa = Inr m"
    and f: "FeedForward_init (tb_ff w) dm ms pm = Inr f"
    and blk: "blk = \<lparr> msa_block = m, ff_block = f \<rparr>"
    unfolding TransformerBlock_init_Inr by blast
  from MultiHeadAttentionBlock_forward_ok[OF m sh] obtain a
    where a: "MultiHeadAttentionBlock_forward m x = Inr a" by blast
  have sa: "shape a = shape x" by (rule MultiHeadAttentionBlock_forward_shape[OF m a])
  then obtain x1 where x1: "tadd a x = Inr x1" and s1: "shape x1 = [B, T, nat dm]"
    using sh by (auto simp: tadd_def)
  from FeedForward_forward_ok[OF f s1] obtain g where g: "FeedForward_forward f x1 = Inr g"
    by blast
  have "shape g = shape x1" by (rule FeedForward_forward_shape[OF f g])
  then obtain y where "tadd g x1 = Inr y" by (auto simp: tadd_def)
  then show ?thesis by (simp add: TransformerBlock_forward_def blk a x1 g)
qed

lemma encoder_apply_ok:
  assumes "\<forall>blk\<in>set blks. \<exists>w. TransformerBlock_init w dm pm pa ms nh = Inr blk"
    and "shape x = [B, T, nat dm]"
  shows "\<exists>y. encoder_apply blks x = Inr y"
  using assms
proof (induction blks arbitrary: x)
  case Nil
  then show ?case by simp
next
  case (Cons blk blks)
  from Cons.prems(1) obtain w where w: "TransformerBlock_init w dm pm pa ms nh = Inr blk" by auto
  from TransformerBlock_forward_ok[OF w Cons.prems(2)] obtain x1
    where x1: "TransformerBlock_forward blk x = Inr x1" by blast
  have "shape x1 = [B, T, nat dm]"
    using TransformerBlock_forward_shape[OF w x1] Cons.prems(2) by simp
  from Cons.IH[OF _ this] Cons.prems(1) obtain y where "encoder_apply blks x1 = Inr y" by auto
  then show ?case by (simp add: x1)
qed

lemma classifier_apply:
  assumes "shape x = [B, T, D]"
  shows "Sequential_apply [LayerNorm D f, Linear D K g] x =
           Inr (tab3 B T K (\<lambda>b t k. g (map (f (row3 x b t)) [0..<D]) k))"
  by (simp add: row_layer_tab3[OF assms] row_layer_on_tab3)

lemma mean_dim1_tab3:
  "mean_dim1 (tab3 B T K g) = Inr (tab2 B K (\<lambda>b k. (\<Sum>t\<leftarrow>[0..<T]. g b t k) / of_nat T))"
proof -
  have "tab2 B K (\<lambda>b k. (\<Sum>t\<leftarrow>[0..<T]. at3 (tab3 B T K g) b t k) / of_nat T)
        = tab2 B K (\<lambda>b k. (\<Sum>t\<leftarrow>[0..<T]. g b t k) / of_nat T)"
  proof (rule tab2_cong)
    fix b k assume "b < B" "k < K"
    then have "map (\<lambda>t. at3 (tab3 B T K g) b t k) [0..<T] = map (\<lambda>t. g b t k) [0..<T]"
      by (intro map_cong) (auto simp: at3_tab3)
    then show "(\<Sum>t\<leftarrow>[0..<T]. at3 (tab3 B T K g) b t k) / of_nat T
               = (\<Sum>t\<leftarrow>[0..<T]. g b t k) / of_nat T" by (simp only:)
  qed
  then show ?thesis by (simp add: mean_dim1_def)
qed

lemma bind_res_Inr_right [simp]: "bind_res m Inr = m"
  by (cases m) simp_all

lemma sample_block_init:
  "TransformerBlock_init sample_block_params 1 0 0 1 1 = Inr sample_block"
  by (simp add: sample_block_def TransformerBlock_init_def MultiHeadAttentionBlock_init_def
      FeedForward_init_def sample_block_params_def LayerNorm_init_def Linear_init_def
      Dropout_init_def MultiheadAttention_init_def)

lemma sample_block_eq:
  "sample_block =
     \<lparr> msa_block = \<lparr> normlayer = LayerNorm 1 (\<lambda>row i. row ! i),
             attention = \<lparr> embed_dim = 1, num_heads = 1, dropout = 0,
                           attn_out = (\<lambda>q k v i. elems q ! i), attn_weights = (\<lambda>q k v i. 0) \<rparr> \<rparr>,
       ff_block = \<lparr> layernorm = LayerNorm 1 (\<lambda>row i. row ! i),
              mlp = [Linear 1 1 (\<lambda>row i. sum_list row), GELU (\<lambda>v. v),
                     Dropout (\<lambda>k v. v), Linear 1 1 (\<lambda>row i. sum_list row),
                     Dropout (\<lambda>k v. v)] \<rparr> \<rparr>"
  by (simp add: sample_block_def TransformerBlock_init_def MultiHeadAttentionBlock_init_def
      FeedForward_init_def sample_block_params_def LayerNorm_init_def Linear_init_def
      Dropout_init_def MultiheadAttention_init_def)

lemma sample_block_forward:
  "TransformerBlock_forward sample_block (Tensor [1, 1, 1] [1]) = Inr (Tensor [1, 1, 1] [4])"
  by (simp add: sample_block_eq TransformerBlock_forward_def MultiHeadAttentionBlock_forward_def
      FeedForward_forward_def row_layer_def rows_of_def MultiheadAttention_apply_def
      weights_shape_def tadd_def)

section \<open>The residual composition\<close>

text \<open>
  Claim C4.  A constructed TransformerBlock computes \<open>a = msa_block(x) + x\<close> and returns
  \<open>ff_block(a) + a\<close>: it returns \<open>y\<close> exactly when the attention block returns some
  \<open>a\<close> (of the shape of \<open>x\<close>), the feed-forward block returns some \<open>f\<close> on the elementwise
  sum of \<open>a\<close> and \<open>x\<close>, and \<open>y\<close> is the elementwise sum of \<open>f\<close> with that sum.  Both
  additions are those of TransformerBlock.forward.
\<close>

theorem TransformerBlock_forward_residual:
  fixes w :: "'a::plus TransformerBlock_params"
  assumes init: "TransformerBlock_init w dm pm pa ms nh = Inr blk"
  shows "TransformerBlock_forward blk x = Inr y \<longleftrightarrow>
    (\<exists>a f. MultiHeadAttentionBlock_forward (msa_block blk) x = Inr a \<and> shape a = shape x
       \<and> FeedForward_forward (ff_block blk)
            (Tensor (shape x) (map (\<lambda>k. elems a ! k + elems x ! k) [0..<prod_list (shape x)]))
          = Inr f
       \<and> shape f = shape x
       \<and> y = Tensor (shape x)
               (map (\<lambda>k. elems f ! k + (elems a ! k + elems x ! k)) [0..<prod_list (shape x)]))"
    (is "?L \<longleftrightarrow> ?R")
proof -
  from init obtain m f0 where m: "MultiHeadAttentionBlock_init (tb_msa w) dm nh pa = Inr m"
    and f0: "FeedForward_init (tb_ff w) dm ms pm = Inr f0"
    and blk: "blk = \<lparr> msa_block = m, ff_block = f0 \<rparr>"
    unfolding TransformerBlock_init_Inr by blast
  let ?n = "prod_list (shape x)"
  have inner: "\<And>a f. map (\<lambda>k. elems f ! k + map (\<lambda>k. elems a ! k + elems x ! k) [0..<?n] ! k) [0..<?n]
                 = map (\<lambda>k. elems f ! k + (elems a ! k + elems x ! k)) [0..<?n]"
    by (rule map_cong) auto
  show ?thesis
  proof
    assume ?L
    then obtain a x1 f where a: "MultiHeadAttentionBlock_forward m x = Inr a"
      and x1: "tadd a x = Inr x1" and f: "FeedForward_forward f0 x1 = Inr f"
      and y: "tadd f x1 = Inr y"
      unfolding TransformerBlock_forward_def blk by (auto simp: bind_res_eq_Inr)
    have sa: "shape a = shape x" by (rule MultiHeadAttentionBlock_forward_shape[OF m a])
    have x1': "x1 = Tensor (shape x) (map (\<lambda>k. elems a ! k + elems x ! k) [0..<?n])"
      using x1 sa by (simp add: tadd_Inr)
    have sf: "shape f = shape x" using FeedForward_forward_shape[OF f0 f] x1' by simp
    have "y = Tensor (shape x) (map (\<lambda>k. elems f ! k + (elems a ! k + elems x ! k)) [0..<?n])"
      using y sf unfolding x1' by (simp add: tadd_Inr inner)
    with a sa f sf x1' show ?R unfolding blk by auto
  next
    assume ?R
    then obtain a f where a: "MultiHeadAttentionBlock_forward m x = Inr a"
      and sa: "shape a = shape x"
      and f: "FeedForward_forward f0
            (Tensor (shape x) (map (\<lambda>k. elems a ! k + elems x ! k) [0..<?n])) = Inr f"
      and sf: "shape f = shape x"
      and y: "y = Tensor (shape x) (map (\<lambda>k. elems f ! k + (elems a ! k + elems x ! k)) [0..<?n])"
      unfolding blk by auto
    have x1: "tadd a x = Inr (Tensor (shape x) (map (\<lambda>k. elems a ! k + elems x ! k) [0..<?n]))"
      using sa by (simp add: tadd_def)
    have "tadd f (Tensor (shape x) (map (\<lambda>k. elems a ! k + elems x ! k) [0..<?n])) = Inr y"
      using sf y by (simp add: tadd_def inner)
    then show ?L unfolding TransformerBlock_forward_def blk by (simp add: a x1 f)
  qed
qed

theorem TransformerBlock_forward_residual_witness:
  "TransformerBlock_init sample_block_params 1 0 0 1 1 = Inr sample_block
   \<and> TransformerBlock_forward sample_block (Tensor [1, 1, 1] [1]) = Inr (Tensor [1, 1, 1] [4])
   \<and> (\<exists>a f. MultiHeadAttentionBlock_forward (msa_block sample_block) (Tensor [1, 1, 1] [1]) = Inr a
         \<and> shape a = shape (Tensor [1, 1, 1] [1::real])
         \<and> FeedForward_forward (ff_block sample_block)
              (Tensor (shape (Tensor [1, 1, 1] [1::real]))
                 (map (\<lambda>k. elems a ! k + elems (Tensor [1, 1, 1] [1::real]) ! k)
                    [0..<prod_list (shape (Tensor [1, 1, 1] [1::real]))])) = Inr f
         \<and> shape f = shape (Tensor [1, 1, 1] [1::real])
         \<and> Tensor [1, 1, 1] [4] =
             Tensor (shape (Tensor [1, 1, 1] [1::real]))
               (map (\<lambda>k. elems f ! k + (elems a ! k + elems (Tensor [1, 1, 1] [1::real]) ! k))
                  [0..<prod_list (shape (Tensor [1, 1, 1] [1::real]))]))"
  using TransformerBlock_forward_residual[OF sample_block_init, THEN iffD1, OF sample_block_forward]
    sample_block_init sample_block_forward
  by (intro conjI)

text \<open>
  Claim C7.  A constructed MultiHeadAttentionBlock holds \<open>LayerNorm(d_model)\<close> and an
  attention of embedding dimension \<open>d_model\<close>.  Its forward returns \<open>y\<close> exactly when the
  LayerNorm returns some \<open>n\<close> on the input and the attention, called with \<open>n\<close> as query,
  key and value, returns \<open>y\<close> together with some weights; \<open>y\<close> is then the attention output
  alone: the weights are dropped and nothing is added to it.
\<close>

theorem MultiHeadAttentionBlock_forward_norm_then_attention:
  assumes init: "MultiHeadAttentionBlock_init w dm nh p = Inr m"
  shows "normlayer m = LayerNorm (nat dm) (msa_norm w)
       \<and> embed_dim (attention m) = nat dm \<and> num_heads (attention m) = nat nh
       \<and> (MultiHeadAttentionBlock_forward m x = Inr y \<longleftrightarrow>
            (\<exists>n wts. layer_apply (LayerNorm (nat dm) (msa_norm w)) x = Inr n
                  \<and> MultiheadAttention_apply (attention m) n n n = Inr (y, wts)))
       \<and> (MultiHeadAttentionBlock_forward m x = Inr y \<longleftrightarrow>
            (\<exists>n. layer_apply (LayerNorm (nat dm) (msa_norm w)) x = Inr n
                \<and> (length (shape n) = 2 \<or> length (shape n) = 3)
                \<and> y = Tensor (shape n) (map (attn_out (attention m) n n n) [0..<prod_list (shape n)])))"
proof -
  from init have m: "m = \<lparr> normlayer = LayerNorm (nat dm) (msa_norm w),
             attention = \<lparr> embed_dim = nat dm, num_heads = nat nh, dropout = p,
                           attn_out = msa_out w, attn_weights = msa_weights w \<rparr> \<rparr>"
    by (simp add: MultiHeadAttentionBlock_init_Inr)
  have 1: "MultiHeadAttentionBlock_forward m x = Inr y \<longleftrightarrow>
            (\<exists>n wts. layer_apply (LayerNorm (nat dm) (msa_norm w)) x = Inr n
                  \<and> MultiheadAttention_apply (attention m) n n n = Inr (y, wts))"
    unfolding MultiHeadAttentionBlock_forward_def m
    by (auto simp: bind_res_eq_Inr)
  have 2: "(\<exists>n wts. layer_apply (LayerNorm (nat dm) (msa_norm w)) x = Inr n
                  \<and> MultiheadAttention_apply (attention m) n n n = Inr (y, wts))
        \<longleftrightarrow> (\<exists>n. layer_apply (LayerNorm (nat dm) (msa_norm w)) x = Inr n
                \<and> (length (shape n) = 2 \<or> length (shape n) = 3)
                \<and> y = Tensor (shape n) (map (attn_out (attention m) n n n) [0..<prod_list (shape n)]))"
    unfolding MultiheadAttention_apply_self m
    by (auto simp: row_layer_Inr)
  show ?thesis using 1 2 by (simp add: m)
qed

theorem MultiHeadAttentionBlock_forward_norm_then_attention_witness:
  "MultiHeadAttentionBlock_init (tb_msa sample_block_params) 1 1 0 = Inr (msa_block sample_block)
   \<and> MultiHeadAttentionBlock_forward (msa_block sample_block) (Tensor [1, 1, 1] [1])
       = Inr (Tensor [1, 1, 1] [1])
   \<and> normlayer (msa_block sample_block) = LayerNorm (nat 1) (msa_norm (tb_msa sample_block_params))
   \<and> (\<exists>n wts. layer_apply (LayerNorm (nat 1) (msa_norm (tb_msa sample_block_params)))
                 (Tensor [1, 1, 1] [1]) = Inr n
           \<and> MultiheadAttention_apply (attention (msa_block sample_block)) n n n
               = Inr (Tensor [1, 1, 1] [1], wts))"
proof -
  have i: "MultiHeadAttentionBlock_init (tb_msa sample_block_params) 1 1 0
             = Inr (msa_block sample_block)"
    by (simp add: sample_block_eq MultiHeadAttentionBlock_init_def sample_block_params_def
        LayerNorm_init_def MultiheadAttention_init_def)
  have f: "MultiHeadAttentionBlock_forward (msa_block sample_block) (Tensor [1, 1, 1] [1])
       = Inr (Tensor [1, 1, 1] [1])"
    by (simp add: sample_block_eq MultiHeadAttentionBlock_forward_def row_layer_def rows_of_def
        MultiheadAttention_apply_def weights_shape_def)
  from MultiHeadAttentionBlock_forward_norm_then_attention[OF i,
      of "Tensor [1, 1, 1] [1]" "Tensor [1, 1, 1] [1]"] i f
  show ?thesis by blast
qed

lemma Sequential_apply_Cons_fun:
  "Sequential_apply (l # ls) = (\<lambda>x. bind_res (layer_apply l x) (Sequential_apply ls))"
  by (rule ext) simp

lemma Sequential_apply_Nil_fun: "Sequential_apply [] = Inr"
  by (rule ext) simp

text \<open>
  Claim C8.  A constructed FeedForward holds \<open>LayerNorm(d_model)\<close> and the five layers
  Linear(d_model, mlp_size), GELU, Dropout, Linear(mlp_size, d_model), Dropout, and its
  forward is their composition in this order on the normalised input.
\<close>

theorem FeedForward_forward_structure:
  assumes init: "FeedForward_init w dm ms p = Inr ff"
  shows "layernorm ff = LayerNorm (nat dm) (ff_norm w)
       \<and> mlp ff = [Linear (nat dm) (nat ms) (ff_linear1 w), GELU (ff_gelu w), Dropout (ff_drop1 w),
                   Linear (nat ms) (nat dm) (ff_linear2 w), Dropout (ff_drop2 w)]
       \<and> FeedForward_forward ff x =
           bind_res (layer_apply (LayerNorm (nat dm) (ff_norm w)) x) (\<lambda>x0.
           bind_res (layer_apply (Linear (nat dm) (nat ms) (ff_linear1 w)) x0) (\<lambda>x1.
           bind_res (layer_apply (GELU (ff_gelu w)) x1) (\<lambda>x2.
           bind_res (layer_apply (Dropout (ff_drop1 w)) x2) (\<lambda>x3.
           bind_res (layer_apply (Linear (nat ms) (nat dm) (ff_linear2 w)) x3) (\<lambda>x4.
           layer_apply (Dropout (ff_drop2 w)) x4)))))"
proof -
  from init have ff: "ff = \<lparr> layernorm = LayerNorm (nat dm) (ff_norm w),
              mlp = [Linear (nat dm) (nat ms) (ff_linear1 w), GELU (ff_gelu w),
                     Dropout (ff_drop1 w), Linear (nat ms) (nat dm) (ff_linear2 w),
                     Dropout (ff_drop2 w)] \<rparr>"
    by (simp add: FeedForward_init_Inr)
  show ?thesis unfolding ff FeedForward_forward_def
    by (simp only: Sequential_apply_Cons_fun Sequential_apply_Nil_fun bind_res_Inr_right
        FeedForward.simps simp_thms)
qed

theorem FeedForward_forward_structure_witness:
  "FeedForward_init (tb_ff sample_block_params) 1 1 0 = Inr (ff_block sample_block)
   \<and> mlp (ff_block sample_block) =
       [Linear (nat 1) (nat 1) (ff_linear1 (tb_ff sample_block_params)),
        GELU (ff_gelu (tb_ff sample_block_params)), Dropout (ff_drop1 (tb_ff sample_block_params)),
        Linear (nat 1) (nat 1) (ff_linear2 (tb_ff sample_block_params)),
        Dropout (ff_drop2 (tb_ff sample_block_params))]
   \<and> FeedForward_forward (ff_block sample_block) (Tensor [1, 1, 1] [2]) = Inr (Tensor [1, 1, 1] [2])"
proof -
  have i: "FeedForward_init (tb_ff sample_block_params) 1 1 0 = Inr (ff_block sample_block)"
    by (simp add: sample_block_eq FeedForward_init_def sample_block_params_def
        LayerNorm_init_def Linear_init_def Dropout_init_def)
  have "FeedForward_forward (ff_block sample_block) (Tensor [1, 1, 1] [2]) = Inr (Tensor [1, 1, 1] [2])"
    unfolding FeedForward_forward_structure[OF i, THEN conjunct2, THEN conjunct2]
    by (simp add: sample_block_params_def row_layer_def rows_of_def)
  with FeedForward_forward_structure[OF i] i show ?thesis by blast
qed

lemma sample_pe_init:
  "PatchEmbedding_init ev_sample sample_pe_params 1 1 (PyStr ''(2, 2)'') (PyStr ''(1, 1)'')
     = Inr sample_pe"
  by (simp add: sample_pe_def PatchEmbedding_init_def py_eval_def ev_sample_def unpack2_def
      py_floordiv_def LayerNorm_init_def Linear_init_def randn3_def)

lemma sample_pe_forward_code:
  "PatchEmbedding_forward sample_pe sample_image = Inr (Tensor [1, 5, 1] [10, 2, 4, 6, 8])"
  by code_simp

lemma sample_vit_init:
  "ViT_init ev_sample sample_vit_params (PyStr ''(2, 2)'') 1 (PyStr ''(1, 1)'') 1 2 0 1 1 1
     = Inr sample_vit"
  by (simp add: sample_vit_def ViT_init_def sample_vit_params_def PatchEmbedding_init_def
      py_eval_def ev_sample_def unpack2_def py_floordiv_def LayerNorm_init_def Linear_init_def
      randn3_def upt_rec TransformerBlock_init_def MultiHeadAttentionBlock_init_def
      FeedForward_init_def Dropout_init_def MultiheadAttention_init_def)

lemma sample_vit_forward: "ViT_forward sample_vit sample_image = Inr (Tensor [1, 1] [96])"
  by code_simp

lemma bind_res_assoc: "bind_res (bind_res m f) g = bind_res m (\<lambda>x. bind_res (f x) g)"
  by (cases m) simp_all

lemma encoder_apply_Nil_fun: "encoder_apply [] = Inr"
  by (rule ext) simp

lemma encoder_apply_Cons_fun:
  "encoder_apply (blk # blks) = (\<lambda>x. bind_res (TransformerBlock_forward blk x) (encoder_apply blks))"
  by (rule ext) simp

lemma encoder_apply_fold:
  "bind_res r (encoder_apply blks) = fold (\<lambda>blk r. bind_res r (TransformerBlock_forward blk)) blks r"
proof (induction blks arbitrary: r)
  case Nil
  show ?case by (simp add: encoder_apply_Nil_fun)
next
  case (Cons blk blks)
  have "bind_res r (encoder_apply (blk # blks))
        = bind_res (bind_res r (TransformerBlock_forward blk)) (encoder_apply blks)"
    by (simp only: encoder_apply_Cons_fun bind_res_assoc)
  also have "\<dots> = fold (\<lambda>blk r. bind_res r (TransformerBlock_forward blk)) blks
                     (bind_res r (TransformerBlock_forward blk))"
    by (rule Cons.IH)
  finally show ?case by (simp only: fold_Cons comp_def)
qed

text \<open>
  Claim C2.  A constructed ViT holds the PatchEmbedding, exactly \<open>num_transformer_layers\<close>
  TransformerBlocks (none when the number is not positive), each built by
  \<open>TransformerBlock.__init__\<close> with the arguments of the ViT, and the classifier
  LayerNorm(d_model), Linear(d_model, num_classes).  Its forward is the mean over dimension 1
  of \<open>ViT_pre_mean\<close>: the classifier applied to the blocks applied one after the other, the
  first block first, to the patch embedding of the input.
\<close>

theorem ViT_composes_blocks:
  fixes w :: "'a::field ViT_params"
  assumes init: "ViT_init ev w img c patch dm n p ms nh nc = Inr v"
  shows "PatchEmbedding_init ev (vit_pe w) c dm img patch = Inr (patch_embedding_layer v)
       \<and> length (transformer_encoder v) = nat n
       \<and> (\<forall>i<nat n. TransformerBlock_init (vit_blocks w i) dm p p ms nh
                       = Inr (transformer_encoder v ! i))
       \<and> classifier v = [LayerNorm (nat dm) (vit_norm w), Linear (nat dm) (nat nc) (vit_head w)]
       \<and> ViT_forward v x = bind_res (ViT_pre_mean v x) mean_dim1"
proof -
  from init obtain pe blocks where
    pe: "PatchEmbedding_init ev (vit_pe w) c dm img patch = Inr pe"
    and len: "length blocks = nat n"
    and blks: "\<forall>i<nat n. TransformerBlock_init (vit_blocks w i) dm p p ms nh = Inr (blocks ! i)"
    and v: "v = \<lparr> patch_embedding_layer = pe, transformer_encoder = blocks,
                 classifier = [LayerNorm (nat dm) (vit_norm w), Linear (nat dm) (nat nc) (vit_head w)] \<rparr>"
    unfolding ViT_init_Inr by blast
  have "ViT_forward v x = bind_res (ViT_pre_mean v x) mean_dim1"
    unfolding ViT_forward_def ViT_pre_mean_def encoder_apply_fold[symmetric]
    by (simp only: bind_res_assoc)
  then show ?thesis using pe len blks by (simp add: v)
qed

theorem ViT_composes_blocks_witness:
  "ViT_init ev_sample sample_vit_params (PyStr ''(2, 2)'') 1 (PyStr ''(1, 1)'') 1 2 0 1 1 1
     = Inr sample_vit
   \<and> length (transformer_encoder sample_vit) = nat 2
   \<and> classifier sample_vit = [LayerNorm (nat 1) (vit_norm sample_vit_params),
                              Linear (nat 1) (nat 1) (vit_head sample_vit_params)]
   \<and> ViT_pre_mean sample_vit sample_image = Inr (Tensor [1, 5, 1] [160, 32, 64, 96, 128])
   \<and> ViT_forward sample_vit sample_image
       = bind_res (ViT_pre_mean sample_vit sample_image) mean_dim1"
proof -
  have pm: "ViT_pre_mean sample_vit sample_image = Inr (Tensor [1, 5, 1] [160, 32, 64, 96, 128])"
    by code_simp
  from ViT_composes_blocks[OF sample_vit_init, of sample_image] sample_vit_init pm
  show ?thesis by blast
qed

lemma ViT_forward_Inr:
  fixes w :: "'a::field ViT_params"
  assumes init: "ViT_init ev w img c patch dm n p ms nh nc = Inr v"
  shows "ViT_forward v x = Inr y \<longleftrightarrow>
     (\<exists>x1 x2 B C H W. shape x = [B, C, H, W]
        \<and> PatchEmbedding_forward (patch_embedding_layer v) x = Inr x1
        \<and> shape x1 = [B, (H div nat (patch_height (patch_embedding_layer v)))
                        * (W div nat (patch_width (patch_embedding_layer v))) + 1, nat dm]
        \<and> encoder_apply (transformer_encoder v) x1 = Inr x2
        \<and> shape x2 = shape x1
        \<and> y = tab2 B (nat nc)
               (\<lambda>b k. (\<Sum>t\<leftarrow>[0..<(H div nat (patch_height (patch_embedding_layer v)))
                                * (W div nat (patch_width (patch_embedding_layer v))) + 1].
                          vit_head w (map (vit_norm w (row3 x2 b t)) [0..<nat dm]) k)
                       / of_nat ((H div nat (patch_height (patch_embedding_layer v)))
                                * (W div nat (patch_width (patch_embedding_layer v))) + 1)))"
    (is "?L \<longleftrightarrow> ?R")
proof -
  from init obtain pe blocks where
    pe: "PatchEmbedding_init ev (vit_pe w) c dm img patch = Inr pe"
    and len: "length blocks = nat n"
    and blks: "\<forall>i<nat n. TransformerBlock_init (vit_blocks w i) dm p p ms nh = Inr (blocks ! i)"
    and v: "v = \<lparr> patch_embedding_layer = pe, transformer_encoder = blocks,
                 classifier = [LayerNorm (nat dm) (vit_norm w), Linear (nat dm) (nat nc) (vit_head w)] \<rparr>"
    unfolding ViT_init_Inr by blast
  have all: "\<forall>blk\<in>set blocks. \<exists>w'. TransformerBlock_init w' dm p p ms nh = Inr blk"
    using blks len by (metis in_set_conv_nth)
  have f: "patch_embedding_layer v = pe" "transformer_encoder v = blocks"
    "classifier v = [LayerNorm (nat dm) (vit_norm w), Linear (nat dm) (nat nc) (vit_head w)]"
    by (simp_all add: v)
  have tail: "\<And>x2 B T. shape x2 = [B, T, nat dm] \<Longrightarrow>
      bind_res (Sequential_apply (classifier v) x2) mean_dim1 =
        Inr (tab2 B (nat nc)
               (\<lambda>b k. (\<Sum>t\<leftarrow>[0..<T]. vit_head w (map (vit_norm w (row3 x2 b t)) [0..<nat dm]) k)
                       / of_nat T))"
    unfolding f by (simp only: classifier_apply bind_res_Inr mean_dim1_tab3)
  show ?thesis
  proof
    assume ?L
    then obtain x1 x2 where x1: "PatchEmbedding_forward pe x = Inr x1"
      and x2: "encoder_apply blocks x1 = Inr x2"
      and y: "bind_res (Sequential_apply (classifier v) x2) mean_dim1 = Inr y"
      unfolding ViT_forward_def f by (auto simp: bind_res_eq_Inr bind_res_def split: sum.splits)
    from x1 obtain B C H W where sh: "shape x = [B, C, H, W]"
      and s1: "shape x1 = [B, (H div nat (patch_height pe)) * (W div nat (patch_width pe)) + 1, nat dm]"
      unfolding PatchEmbedding_forward_Inr[OF pe] by auto
    have s2: "shape x2 = shape x1" by (rule encoder_apply_shape[OF all x2])
    from y tail[of x2 B] s1 s2 have
      "y = tab2 B (nat nc)
               (\<lambda>b k. (\<Sum>t\<leftarrow>[0..<(H div nat (patch_height pe)) * (W div nat (patch_width pe)) + 1].
                          vit_head w (map (vit_norm w (row3 x2 b t)) [0..<nat dm]) k)
                       / of_nat ((H div nat (patch_height pe)) * (W div nat (patch_width pe)) + 1))"
      by simp
    with sh x1 s1 x2 s2 show ?R unfolding f by blast
  next
    assume ?R
    then obtain x1 x2 B C H W where sh: "shape x = [B, C, H, W]"
      and x1: "PatchEmbedding_forward pe x = Inr x1"
      and s1: "shape x1 = [B, (H div nat (patch_height pe)) * (W div nat (patch_width pe)) + 1, nat dm]"
      and x2: "encoder_apply blocks x1 = Inr x2" and s2: "shape x2 = shape x1"
      and y: "y = tab2 B (nat nc)
               (\<lambda>b k. (\<Sum>t\<leftarrow>[0..<(H div nat (patch_height pe)) * (W div nat (patch_width pe)) + 1].
                          vit_head w (map (vit_norm w (row3 x2 b t)) [0..<nat dm]) k)
                       / of_nat ((H div nat (patch_height pe)) * (W div nat (patch_width pe)) + 1))"
      unfolding f by blast
    have "bind_res (Sequential_apply (classifier v) x2) mean_dim1 = Inr y"
      using tail[of x2 B] s1 s2 y by simp
    then show ?L unfolding ViT_forward_def f using x1 x2 by simp
  qed
qed

lemma ViT_forward_accepts:
  fixes w :: "'a::field ViT_params"
  assumes init: "ViT_init ev w img c patch dm n p ms nh nc = Inr v"
  shows "(\<exists>y. ViT_forward v x = Inr y) \<longleftrightarrow>
         (\<exists>x1. PatchEmbedding_forward (patch_embedding_layer v) x = Inr x1)"
proof
  assume "\<exists>y. ViT_forward v x = Inr y"
  then show "\<exists>x1. PatchEmbedding_forward (patch_embedding_layer v) x = Inr x1"
    unfolding ViT_forward_Inr[OF init] by blast
next
  assume "\<exists>x1. PatchEmbedding_forward (patch_embedding_layer v) x = Inr x1"
  then obtain x1 where x1: "PatchEmbedding_forward (patch_embedding_layer v) x = Inr x1" by blast
  from init obtain pe blocks where
    pe: "PatchEmbedding_init ev (vit_pe w) c dm img patch = Inr pe"
    and len: "length blocks = nat n"
    and blks: "\<forall>i<nat n. TransformerBlock_init (vit_blocks w i) dm p p ms nh = Inr (blocks ! i)"
    and v: "v = \<lparr> patch_embedding_layer = pe, transformer_encoder = blocks,
                 classifier = [LayerNorm (nat dm) (vit_norm w), Linear (nat dm) (nat nc) (vit_head w)] \<rparr>"
    unfolding ViT_init_Inr by blast
  have all: "\<forall>blk\<in>set blocks. \<exists>w'. TransformerBlock_init w' dm p p ms nh = Inr blk"
    using blks len by (metis in_set_conv_nth)
  from x1 obtain B C H W where sh: "shape x = [B, C, H, W]"
    and s1: "shape x1 = [B, (H div nat (patch_height pe)) * (W div nat (patch_width pe)) + 1, nat dm]"
    unfolding v using PatchEmbedding_forward_Inr[OF pe, of x x1] by auto
  from encoder_apply_ok[OF all s1] obtain x2 where x2: "encoder_apply blocks x1 = Inr x2" by blast
  have s2: "shape x2 = shape x1" by (rule encoder_apply_shape[OF all x2])
  show "\<exists>y. ViT_forward v x = Inr y"
    unfolding ViT_forward_Inr[OF init] using sh x1 s1 x2 s2 unfolding v by auto
qed

text \<open>
  Claim C1.  Whenever a constructed ViT accepts an input, the input has four dimensions
  \<open>[B, C, H, W]\<close> and the result has shape \<open>[B, num_classes]\<close>, with \<open>B * num_classes\<close>
  elements: one value for each batch element when \<open>num_classes = 1\<close>.  (Lemma
  \<open>ViT_forward_accepts\<close>: the ViT accepts exactly the inputs its PatchEmbedding accepts.)
\<close>

theorem ViT_forward_output_shape:
  fixes w :: "'a::field ViT_params"
  assumes init: "ViT_init ev w img c patch dm n p ms nh nc = Inr v"
    and fwd: "ViT_forward v x = Inr y"
  shows "\<exists>B C H W. shape x = [B, C, H, W] \<and> shape y = [B, nat nc]
           \<and> length (elems y) = B * nat nc"
proof -
  from fwd obtain B C H W g where "shape x = [B, C, H, W]" and "y = tab2 B (nat nc) g"
    unfolding ViT_forward_Inr[OF init] by blast
  then show ?thesis by (auto simp: tab2_def)
qed

theorem ViT_forward_output_shape_witness:
  "ViT_init ev_sample sample_vit_params (PyStr ''(2, 2)'') 1 (PyStr ''(1, 1)'') 1 2 0 1 1 1
     = Inr sample_vit
   \<and> ViT_forward sample_vit sample_image = Inr (Tensor [1, 1] [96])
   \<and> (\<exists>B C H W. shape sample_image = [B, C, H, W] \<and> shape (Tensor [1, 1] [96::real]) = [B, nat 1]
           \<and> length (elems (Tensor [1, 1] [96::real])) = B * nat 1)"
  using ViT_forward_output_shape[OF sample_vit_init sample_vit_forward]
    sample_vit_init sample_vit_forward
  by (intro conjI)

lemma PatchEmbedding_init_fields:
  assumes init: "PatchEmbedding_init ev w c dm img patch = Inr pe"
  shows "to_patch_embedding pe =
           [Rearrange (patch_height pe) (patch_width pe),
            LayerNorm (nat (patch_dim pe)) (pe_norm1 w),
            Linear (nat (patch_dim pe)) (nat dm) (pe_linear w),
            LayerNorm (nat dm) (pe_norm2 w)]"
    and "cls_token pe = tab3 1 1 (nat dm) (pe_cls w)"
    and "pos_embedding pe = tab3 1 (nat (num_patches pe + 1)) (nat dm) (pe_pos w)"
    and "0 \<le> num_patches pe + 1" and "0 \<le> dm" and "0 \<le> patch_dim pe"
    and "patch_height pe \<noteq> 0" and "patch_width pe \<noteq> 0"
    and "patch_dim pe = c * patch_height pe * patch_width pe"
    and "num_patches pe = (image_height pe div patch_height pe) * (image_width pe div patch_width pe)"
    and "d_model pe = dm"
  using PatchEmbedding_init_Inr[OF init] by auto

lemma length4: "length xs = 4 \<longleftrightarrow> (\<exists>a b c d. xs = [a, b, c, d])"
  by (auto simp: length_Suc_conv eval_nat_numeral)

lemma int_div_nat: "0 < p \<Longrightarrow> int (H div nat p) = int H div p"
  by (simp add: zdiv_int)

lemma sample_vit9_init:
  "ViT_init ev_sample sample_vit_params (PyStr ''(3, 3)'') 1 (PyStr ''(1, 1)'') 1 2 0 1 1 1
     = Inr sample_vit9"
  by (simp add: sample_vit9_def ViT_init_def sample_vit_params_def PatchEmbedding_init_def
      py_eval_def ev_sample_def unpack2_def py_floordiv_def LayerNorm_init_def Linear_init_def
      randn3_def upt_rec TransformerBlock_init_def MultiHeadAttentionBlock_init_def
      FeedForward_init_def Dropout_init_def MultiheadAttention_init_def)

lemma sample_pe9_init:
  "PatchEmbedding_init ev_sample sample_pe_params 1 1 (PyStr ''(3, 3)'') (PyStr ''(1, 1)'')
     = Inr sample_pe9"
  by (simp add: sample_pe9_def PatchEmbedding_init_def py_eval_def ev_sample_def unpack2_def
      py_floordiv_def LayerNorm_init_def Linear_init_def randn3_def)

text \<open>
  Claim C9, as amended.  Whenever a constructed ViT returns \<open>y\<close>, the encoder output \<open>x2\<close>
  has \<open>T\<close> tokens for each batch element, \<open>T\<close> being the number of patches of the input
  plus one; \<open>T\<close> is at most \<open>num_patches + 1\<close> (unless \<open>num_patches = 0\<close>), and it is
  \<open>num_patches + 1\<close> when the input has the configured image height and width.  The
  classifier output \<open>x3\<close> holds at \<open>(b, t)\<close> the Linear of the LayerNorm of token \<open>(b, t)\<close>
  of \<open>x2\<close>; and \<open>y\<close> at \<open>(b, k)\<close> is the sum of \<open>x3\<close> at \<open>(b, t, k)\<close> over all \<open>T\<close>
  positions \<open>t\<close>, divided by \<open>T\<close>: not the class-token position alone.  On the sample the
  class-token position holds 160 and the result is 96.
\<close>

theorem ViT_forward_mean_over_tokens:
  fixes w :: "'a::field ViT_params"
  assumes init: "ViT_init ev w img c patch dm n p ms nh nc = Inr v"
    and fwd: "ViT_forward v x = Inr y"
  shows "\<exists>x1 x2 x3 B T. PatchEmbedding_forward (patch_embedding_layer v) x = Inr x1
           \<and> encoder_apply (transformer_encoder v) x1 = Inr x2
           \<and> shape x2 = [B, T, nat dm]
           \<and> int T = int (shape x ! 2 div nat (patch_height (patch_embedding_layer v)))
                      * int (shape x ! 3 div nat (patch_width (patch_embedding_layer v))) + 1
           \<and> (int T \<le> num_patches (patch_embedding_layer v) + 1
                \<or> num_patches (patch_embedding_layer v) = 0)
           \<and> (int (shape x ! 2) = image_height (patch_embedding_layer v)
                \<and> int (shape x ! 3) = image_width (patch_embedding_layer v)
                \<longrightarrow> int T = num_patches (patch_embedding_layer v) + 1)
           \<and> Sequential_apply (classifier v) x2 = Inr x3
           \<and> shape x3 = [B, T, nat nc]
           \<and> (\<forall>b<B. \<forall>t<T. \<forall>k<nat nc.
                 at3 x3 b t k = vit_head w (map (vit_norm w (row3 x2 b t)) [0..<nat dm]) k)
           \<and> shape y = [B, nat nc]
           \<and> (\<forall>b<B. \<forall>k<nat nc. at2 y b k = (\<Sum>t\<leftarrow>[0..<T]. at3 x3 b t k) / of_nat T)"
proof -
  let ?pe = "patch_embedding_layer v"
  let ?ph = "nat (patch_height ?pe)"
  let ?pw = "nat (patch_width ?pe)"
  from fwd obtain x1 x2 B C H W where sh: "shape x = [B, C, H, W]"
    and x1: "PatchEmbedding_forward ?pe x = Inr x1"
    and s1: "shape x1 = [B, (H div ?ph) * (W div ?pw) + 1, nat dm]"
    and x2: "encoder_apply (transformer_encoder v) x1 = Inr x2"
    and s2: "shape x2 = shape x1"
    and y: "y = tab2 B (nat nc)
               (\<lambda>b k. (\<Sum>t\<leftarrow>[0..<(H div ?ph) * (W div ?pw) + 1].
                          vit_head w (map (vit_norm w (row3 x2 b t)) [0..<nat dm]) k)
                       / of_nat ((H div ?ph) * (W div ?pw) + 1))"
    unfolding ViT_forward_Inr[OF init] by blast
  define T where "T = (H div ?ph) * (W div ?pw) + 1"
  define x3 where "x3 = tab3 B T (nat nc)
                          (\<lambda>b t k. vit_head w (map (vit_norm w (row3 x2 b t)) [0..<nat dm]) k)"
  have cl: "classifier v = [LayerNorm (nat dm) (vit_norm w), Linear (nat dm) (nat nc) (vit_head w)]"
    using init unfolding ViT_init_Inr by auto
  have pe: "PatchEmbedding_init ev (vit_pe w) c dm img patch = Inr ?pe"
    using init unfolding ViT_init_Inr by auto
  from x1 have pos: "0 < patch_height ?pe" "0 < patch_width ?pe"
    and np: "int ((H div ?ph) * (W div ?pw)) \<le> num_patches ?pe \<or> num_patches ?pe = 0"
    unfolding PatchEmbedding_forward_Inr[OF pe] sh by auto
  have le: "int T \<le> num_patches ?pe + 1 \<or> num_patches ?pe = 0"
    using np by (auto simp: T_def)
  have cfg: "int (shape x ! 2) = image_height ?pe \<and> int (shape x ! 3) = image_width ?pe
               \<longrightarrow> int T = num_patches ?pe + 1"
    using pos
    by (simp add: T_def sh PatchEmbedding_init_fields(10)[OF pe] int_div_nat)
  have s2': "shape x2 = [B, T, nat dm]" using s1 s2 by (simp add: T_def)
  have c: "Sequential_apply (classifier v) x2 = Inr x3"
    unfolding cl x3_def by (rule classifier_apply[OF s2'])
  have e3: "\<forall>b<B. \<forall>t<T. \<forall>k<nat nc.
                 at3 x3 b t k = vit_head w (map (vit_norm w (row3 x2 b t)) [0..<nat dm]) k"
    unfolding x3_def by (simp add: at3_tab3)
  have ey: "\<forall>b<B. \<forall>k<nat nc. at2 y b k = (\<Sum>t\<leftarrow>[0..<T]. at3 x3 b t k) / of_nat T"
  proof (intro allI impI)
    fix b k assume b: "b < B" and k: "k < nat nc"
    have "map (\<lambda>t. at3 x3 b t k) [0..<T]
          = map (\<lambda>t. vit_head w (map (vit_norm w (row3 x2 b t)) [0..<nat dm]) k) [0..<T]"
      using e3 b k by (intro map_cong) auto
    then show "at2 y b k = (\<Sum>t\<leftarrow>[0..<T]. at3 x3 b t k) / of_nat T"
      unfolding y T_def[symmetric] using b k by (simp only: at2_tab2)
  qed
  have T: "int T = int (shape x ! 2 div ?ph) * int (shape x ! 3 div ?pw) + 1"
    by (simp add: T_def sh)
  have sy: "shape y = [B, nat nc]" by (simp add: y)
  have s3: "shape x3 = [B, T, nat nc]" by (simp add: x3_def)
  from x1 x2 s2' T le cfg c s3 e3 sy ey show ?thesis by blast
qed

theorem ViT_forward_mean_over_tokens_witness:
  "ViT_init ev_sample sample_vit_params (PyStr ''(2, 2)'') 1 (PyStr ''(1, 1)'') 1 2 0 1 1 1
     = Inr sample_vit
   \<and> ViT_forward sample_vit sample_image = Inr (Tensor [1, 1] [96])
   \<and> (\<exists>x1 x2 x3 B T. PatchEmbedding_forward (patch_embedding_layer sample_vit) sample_image = Inr x1
           \<and> encoder_apply (transformer_encoder sample_vit) x1 = Inr x2
           \<and> shape x2 = [B, T, nat 1]
           \<and> int T = int (shape sample_image ! 2 div nat (patch_height (patch_embedding_layer sample_vit)))
                      * int (shape sample_image ! 3 div nat (patch_width (patch_embedding_layer sample_vit))) + 1
           \<and> (int T \<le> num_patches (patch_embedding_layer sample_vit) + 1
                \<or> num_patches (patch_embedding_layer sample_vit) = 0)
           \<and> (int (shape sample_image ! 2) = image_height (patch_embedding_layer sample_vit)
                \<and> int (shape sample_image ! 3) = image_width (patch_embedding_layer sample_vit)
                \<longrightarrow> int T = num_patches (patch_embedding_layer sample_vit) + 1)
           \<and> Sequential_apply (classifier sample_vit) x2 = Inr x3
           \<and> shape x3 = [B, T, nat 1]
           \<and> (\<forall>b<B. \<forall>t<T. \<forall>k<nat 1.
                 at3 x3 b t k = vit_head sample_vit_params
                                  (map (vit_norm sample_vit_params (row3 x2 b t)) [0..<nat 1]) k)
           \<and> shape (Tensor [1, 1] [96::real]) = [B, nat 1]
           \<and> (\<forall>b<B. \<forall>k<nat 1. at2 (Tensor [1, 1] [96::real]) b k
                                  = (\<Sum>t\<leftarrow>[0..<T]. at3 x3 b t k) / of_nat T))
   \<and> int (shape sample_image ! 2) = image_height (patch_embedding_layer sample_vit)
   \<and> int (shape sample_image ! 3) = image_width (patch_embedding_layer sample_vit)
   \<and> num_patches (patch_embedding_layer sample_vit) = 4
   \<and> ViT_pre_mean sample_vit sample_image = Inr (Tensor [1, 5, 1] [160, 32, 64, 96, 128])
   \<and> at3 (Tensor [1, 5, 1] [160, 32, 64, 96, 128 :: real]) 0 0 0 = 160
   \<and> at2 (Tensor [1, 1] [96 :: real]) 0 0 = (160 + 32 + 64 + 96 + 128) / 5"
proof -
  have pm: "ViT_pre_mean sample_vit sample_image = Inr (Tensor [1, 5, 1] [160, 32, 64, 96, 128])"
    by code_simp
  have h: "int (shape sample_image ! 2) = image_height (patch_embedding_layer sample_vit)"
    by code_simp
  have w: "int (shape sample_image ! 3) = image_width (patch_embedding_layer sample_vit)"
    by code_simp
  have np: "num_patches (patch_embedding_layer sample_vit) = 4" by code_simp
  have a3: "at3 (Tensor [1, 5, 1] [160, 32, 64, 96, 128 :: real]) 0 0 0 = 160"
    by (simp add: at3_def)
  have a2: "at2 (Tensor [1, 1] [96 :: real]) 0 0 = (160 + 32 + 64 + 96 + 128) / 5"
    by (simp add: at2_def)
  from ViT_forward_mean_over_tokens[OF sample_vit_init sample_vit_forward]
    sample_vit_init sample_vit_forward h w np pm a3 a2
  show ?thesis by (intro conjI)
qed

text \<open>
  Claim C9 as stated says that the mean runs over \<open>num_patches + 1\<close> positions for
  every input.  It fails on an input smaller than the configured image: a ViT configured
  for a 3 by 3 image and 1 by 1 patches has \<open>num_patches = 9\<close>, accepts a 2 by 2 image and
  returns the mean over its 5 positions, not over 10.
\<close>

theorem ViT_forward_mean_over_tokens_counterexample:
  "ViT_init ev_sample sample_vit_params (PyStr ''(3, 3)'') 1 (PyStr ''(1, 1)'') 1 2 0 1 1 1
     = Inr sample_vit9
   \<and> num_patches (patch_embedding_layer sample_vit9) = 9
   \<and> shape sample_image = [1, 1, 2, 2]
   \<and> ViT_pre_mean sample_vit9 sample_image = Inr (Tensor [1, 5, 1] [160, 32, 64, 96, 128])
   \<and> ViT_forward sample_vit9 sample_image = Inr (Tensor [1, 1] [96])
   \<and> (96 :: real) = (160 + 32 + 64 + 96 + 128) / 5"
proof -
  have a: "num_patches (patch_embedding_layer sample_vit9) = 9" by code_simp
  have b: "shape sample_image = [1, 1, 2, 2]" by (simp add: sample_image_def)
  have c: "ViT_pre_mean sample_vit9 sample_image = Inr (Tensor [1, 5, 1] [160, 32, 64, 96, 128])"
    by code_simp
  have d: "ViT_forward sample_vit9 sample_image = Inr (Tensor [1, 1] [96])" by code_simp
  have e: "(96 :: real) = (160 + 32 + 64 + 96 + 128) / 5" by simp
  from sample_vit9_init a b c d e show ?thesis by (intro conjI)
qed

lemma PatchEmbedding_init_tuple_patch:
  "PatchEmbedding_init ev w c dm img (PyTuple ts) = Inl TypeError"
  by (simp add: PatchEmbedding_init_def)

lemma PatchEmbedding_init_tuple_img:
  "\<exists>e. PatchEmbedding_init ev w c dm (PyTuple ts) patch = Inl e"
proof (cases "PatchEmbedding_init ev w c dm (PyTuple ts) patch")
  case (Inl e)
  then show ?thesis by blast
next
  case (Inr pe)
  from PatchEmbedding_init_Inr[OF this] show ?thesis by auto
qed

lemma ViT_init_Inl:
  "PatchEmbedding_init ev (vit_pe w) c dm img patch = Inl e \<Longrightarrow>
   ViT_init ev w img c patch dm n p ms nh nc = Inl e"
  by (simp add: ViT_init_def)

lemma py_eval_source:
  "py_eval ev (PyBytes s) = py_eval ev (PyStr s)"
  "py_eval ev (PyByteArray s) = py_eval ev (PyStr s)"
  "py_eval ev (PyCode s) = py_eval ev (PyStr s)"
  by (simp_all add: py_eval_def)

lemma PatchEmbedding_init_py_eval:
  "py_eval ev img = py_eval ev img' \<Longrightarrow> py_eval ev patch = py_eval ev patch' \<Longrightarrow>
   PatchEmbedding_init ev w c dm img patch = PatchEmbedding_init ev w c dm img' patch'"
  by (simp add: PatchEmbedding_init_def)

text \<open>
  Claim C3, as amended.  \<open>PatchEmbedding.__init__\<close> returns only when \<open>eval\<close> accepts
  both shapes and each result unpacks into two values.  When \<open>patch_shape\<close> is a tuple it
  raises TypeError, from \<open>eval\<close> on line 17; when \<open>img_shape\<close> is a tuple it raises, and
  the exception is the TypeError of \<open>eval\<close> on line 18 when line 17 went through.
  \<open>ViT.__init__\<close> raises in both cases, and with its own default arguments \<open>(160, 106)\<close>
  and \<open>(32, 53)\<close> it raises TypeError.
\<close>

theorem PatchEmbedding_init_rejects_tuples:
  "(PatchEmbedding_init ev w c dm img patch = Inr pe \<longrightarrow>
      (\<exists>v1 v2 p1 p2. py_eval ev patch = Inr v1 \<and> py_eval ev img = Inr v2
          \<and> unpack2 v1 = Inr p1 \<and> unpack2 v2 = Inr p2))
   \<and> (patch = PyTuple ts \<longrightarrow> PatchEmbedding_init ev w c dm img patch = Inl TypeError)
   \<and> (img = PyTuple ts \<longrightarrow> (\<exists>e. PatchEmbedding_init ev w c dm img patch = Inl e))
   \<and> (img = PyTuple ts \<and> py_eval ev patch = Inr v \<and> unpack2 v = Inr pr \<longrightarrow>
        PatchEmbedding_init ev w c dm img patch = Inl TypeError)
   \<and> (img = PyTuple ts \<or> patch = PyTuple ts \<longrightarrow>
        (\<exists>e. ViT_init ev w' img c patch dm n p ms nh nc = Inl e))
   \<and> ViT_init ev w' (PyTuple [PyInt 160, PyInt 106]) 4 (PyTuple [PyInt 32, PyInt 53])
        512 2 (1 / 5) 1048 4 1 = Inl TypeError"
proof (intro conjI impI)
  assume "PatchEmbedding_init ev w c dm img patch = Inr pe"
  from PatchEmbedding_init_Inr[OF this]
  show "\<exists>v1 v2 p1 p2. py_eval ev patch = Inr v1 \<and> py_eval ev img = Inr v2
          \<and> unpack2 v1 = Inr p1 \<and> unpack2 v2 = Inr p2"
    by (elim exE conjE) blast
next
  assume "patch = PyTuple ts"
  then show "PatchEmbedding_init ev w c dm img patch = Inl TypeError"
    by (simp add: PatchEmbedding_init_tuple_patch)
next
  assume "img = PyTuple ts"
  then show "\<exists>e. PatchEmbedding_init ev w c dm img patch = Inl e"
    by (simp add: PatchEmbedding_init_tuple_img)
next
  assume "img = PyTuple ts \<and> py_eval ev patch = Inr v \<and> unpack2 v = Inr pr"
  then show "PatchEmbedding_init ev w c dm img patch = Inl TypeError"
    by (cases pr) (simp add: PatchEmbedding_init_def)
next
  assume "img = PyTuple ts \<or> patch = PyTuple ts"
  then have "\<exists>e. PatchEmbedding_init ev (vit_pe w') c dm img patch = Inl e"
    using PatchEmbedding_init_tuple_patch[of ev "vit_pe w'" c dm img ts]
      PatchEmbedding_init_tuple_img[of ev "vit_pe w'" c dm ts patch] by auto
  then show "\<exists>e. ViT_init ev w' img c patch dm n p ms nh nc = Inl e"
    using ViT_init_Inl by blast
next
  show "ViT_init ev w' (PyTuple [PyInt 160, PyInt 106]) 4 (PyTuple [PyInt 32, PyInt 53])
        512 2 (1 / 5) 1048 4 1 = Inl TypeError"
    by (rule ViT_init_Inl) (rule PatchEmbedding_init_tuple_patch)
qed

theorem PatchEmbedding_init_rejects_tuples_witness:
  "PatchEmbedding_init ev_sample sample_pe_params 1 1 (PyStr ''(2, 2)'') (PyStr ''(1, 1)'')
     = Inr sample_pe
   \<and> (\<exists>v1 v2 p1 p2. py_eval ev_sample (PyStr ''(1, 1)'') = Inr v1
          \<and> py_eval ev_sample (PyStr ''(2, 2)'') = Inr v2
          \<and> unpack2 v1 = Inr p1 \<and> unpack2 v2 = Inr p2)
   \<and> PatchEmbedding_init ev_sample sample_pe_params 1 1 (PyStr ''(2, 2)'')
        (PyTuple [PyInt 1, PyInt 1]) = Inl TypeError
   \<and> py_eval ev_sample (PyStr ''(1, 1)'') = Inr (PyTuple [PyInt 1, PyInt 1])
   \<and> unpack2 (PyTuple [PyInt 1, PyInt 1]) = Inr (PyInt 1, PyInt 1)
   \<and> PatchEmbedding_init ev_sample sample_pe_params 1 1 (PyTuple [PyInt 2, PyInt 2])
        (PyStr ''(1, 1)'') = Inl TypeError
   \<and> (\<exists>e. ViT_init ev_sample sample_vit_params (PyTuple [PyInt 2, PyInt 2]) 1 (PyStr ''(1, 1)'')
            1 2 0 1 1 1 = Inl e)"
proof -
  have e: "py_eval ev_sample (PyStr ''(1, 1)'') = Inr (PyTuple [PyInt 1, PyInt 1])"
    by (simp add: py_eval_def ev_sample_def)
  have u: "unpack2 (PyTuple [PyInt 1, PyInt 1]) = Inr (PyInt 1, PyInt 1)"
    by (simp add: unpack2_def)
  have a: "\<exists>v1 v2 p1 p2. py_eval ev_sample (PyStr ''(1, 1)'') = Inr v1
          \<and> py_eval ev_sample (PyStr ''(2, 2)'') = Inr v2
          \<and> unpack2 v1 = Inr p1 \<and> unpack2 v2 = Inr p2"
    by (rule PatchEmbedding_init_rejects_tuples[THEN conjunct1, rule_format, OF sample_pe_init])
  have b: "PatchEmbedding_init ev_sample sample_pe_params 1 1 (PyStr ''(2, 2)'')
        (PyTuple [PyInt 1, PyInt 1]) = Inl TypeError"
    by (rule PatchEmbedding_init_rejects_tuples[THEN conjunct2, THEN conjunct1, rule_format, OF refl])
  have c: "PatchEmbedding_init ev_sample sample_pe_params 1 1 (PyTuple [PyInt 2, PyInt 2])
        (PyStr ''(1, 1)'') = Inl TypeError"
    using PatchEmbedding_init_rejects_tuples[of ev_sample sample_pe_params 1 1
        "PyTuple [PyInt 2, PyInt 2]" "PyStr ''(1, 1)''" sample_pe "[PyInt 2, PyInt 2]"
        "PyTuple [PyInt 1, PyInt 1]" "(PyInt 1, PyInt 1)",
        THEN conjunct2, THEN conjunct2, THEN conjunct2, THEN conjunct1] e u
    by simp
  have d: "\<exists>e. ViT_init ev_sample sample_vit_params (PyTuple [PyInt 2, PyInt 2]) 1 (PyStr ''(1, 1)'')
            1 2 0 1 1 1 = Inl e"
    by (rule PatchEmbedding_init_rejects_tuples[THEN conjunct2, THEN conjunct2, THEN conjunct2,
          THEN conjunct2, THEN conjunct1, rule_format, OF disjI1[OF refl]])
  from sample_pe_init a b e u c d show ?thesis by (intro conjI)
qed

text \<open>
  Claim C3 as stated says that construction succeeds only for strings.  It fails there:
  \<open>eval\<close> also takes bytes, bytearrays and code objects, and a PatchEmbedding is
  constructed from \<open>b"(2, 2)"\<close> and \<open>b"(1, 1)"\<close>, and from a code object and a bytearray,
  the same one as from the two strings.
\<close>

theorem PatchEmbedding_init_rejects_tuples_counterexample:
  "PatchEmbedding_init ev_sample sample_pe_params 1 1 (PyBytes ''(2, 2)'') (PyBytes ''(1, 1)'')
     = Inr sample_pe
   \<and> PatchEmbedding_init ev_sample sample_pe_params 1 1 (PyCode ''(2, 2)'')
       (PyByteArray ''(1, 1)'') = Inr sample_pe
   \<and> patch_height sample_pe = 1 \<and> patch_width sample_pe = 1
   \<and> image_height sample_pe = 2 \<and> image_width sample_pe = 2"
proof -
  have a: "PatchEmbedding_init ev_sample sample_pe_params 1 1 (PyBytes ''(2, 2)'')
             (PyBytes ''(1, 1)'') = Inr sample_pe"
    unfolding PatchEmbedding_init_py_eval[OF py_eval_source(1) py_eval_source(1)]
    by (rule sample_pe_init)
  have b: "PatchEmbedding_init ev_sample sample_pe_params 1 1 (PyCode ''(2, 2)'')
             (PyByteArray ''(1, 1)'') = Inr sample_pe"
    unfolding PatchEmbedding_init_py_eval[OF py_eval_source(3) py_eval_source(2)]
    by (rule sample_pe_init)
  have c: "patch_height sample_pe = 1" by code_simp
  have d: "patch_width sample_pe = 1" by code_simp
  have e: "image_height sample_pe = 2" by code_simp
  have f: "image_width sample_pe = 2" by code_simp
  from a b c d e f show ?thesis by (intro conjI)
qed

text \<open>
  Claim C5, as amended.  The patch pipeline of a constructed PatchEmbedding is Rearrange,
  LayerNorm over the patch, Linear to \<open>d_model\<close>, LayerNorm; the class token has shape
  \<open>[1, 1, d_model]\<close> and the positional embedding \<open>[1, num_patches + 1, d_model]\<close>.  Its
  forward returns \<open>y\<close> exactly when the pipeline returns tokens \<open>toks\<close> of shape
  \<open>[B, n, d_model]\<close> and the slice of the positional embedding fits (\<open>n \<le> num_patches\<close>,
  or a positional embedding of one row is broadcast); \<open>y\<close> then has \<open>n + 1\<close> positions:
  position 0 holds the class token, the same for every batch element, position \<open>t + 1\<close>
  holds token \<open>t\<close>, and row \<open>t\<close> of the positional embedding is added to position \<open>t\<close>, for
  each of the \<open>n + 1\<close> positions.  The number \<open>n\<close> of patch tokens is that of the input; it
  is \<open>num_patches\<close> when the input has the configured image height and width.
\<close>

theorem PatchEmbedding_forward_steps:
  fixes w :: "'a::plus PatchEmbedding_params"
  assumes init: "PatchEmbedding_init ev w c dm img patch = Inr pe"
  shows "to_patch_embedding pe =
           [Rearrange (patch_height pe) (patch_width pe),
            LayerNorm (nat (patch_dim pe)) (pe_norm1 w),
            Linear (nat (patch_dim pe)) (nat dm) (pe_linear w),
            LayerNorm (nat dm) (pe_norm2 w)]
       \<and> shape (cls_token pe) = [1, 1, nat dm]
       \<and> shape (pos_embedding pe) = [1, nat (num_patches pe + 1), nat dm]
       \<and> (PatchEmbedding_forward pe x = Inr y \<longleftrightarrow>
            (\<exists>toks B n. Sequential_apply (to_patch_embedding pe) x = Inr toks
               \<and> shape toks = [B, n, nat dm]
               \<and> (int n \<le> num_patches pe \<or> num_patches pe = 0)
               \<and> y = tab3 B (n + 1) (nat dm)
                        (\<lambda>b t d. (if t = 0 then at3 (cls_token pe) 0 0 d
                                   else at3 toks b (t - 1) d)
                                 + at3 (pos_embedding pe) 0
                                     (if int n \<le> num_patches pe then t else 0) d)))
       \<and> (\<forall>toks B n. Sequential_apply (to_patch_embedding pe) x = Inr toks
               \<and> shape toks = [B, n, nat dm]
               \<and> int (shape x ! 2) = image_height pe \<and> int (shape x ! 3) = image_width pe
             \<longrightarrow> int n = num_patches pe)"
proof -
  note f = PatchEmbedding_init_fields[OF init]
  let ?NP1 = "nat (num_patches pe + 1)"
  have c1: "\<And>n. (n + 1 \<le> ?NP1 \<or> ?NP1 = 1) \<longleftrightarrow> (int n \<le> num_patches pe \<or> num_patches pe = 0)"
    using f(4) by auto
  have c2: "\<And>n. n + 1 \<le> ?NP1 \<longleftrightarrow> int n \<le> num_patches pe" using f(4) by auto
  have shape_toks: "\<And>toks. Sequential_apply (to_patch_embedding pe) x = Inr toks
      \<Longrightarrow> \<exists>B n. shape toks = [B, n, nat dm]"
    unfolding f(1) to_patch_embedding_Inr by auto
  have char: "\<And>toks B n. Sequential_apply (to_patch_embedding pe) x = Inr toks
      \<Longrightarrow> shape toks = [B, n, nat dm]
      \<Longrightarrow> PatchEmbedding_forward pe x =
           (if int n \<le> num_patches pe \<or> num_patches pe = 0
            then Inr (tab3 B (n + 1) (nat dm)
                        (\<lambda>b t d. (if t = 0 then at3 (cls_token pe) 0 0 d
                                   else at3 toks b (t - 1) d)
                                 + at3 (pos_embedding pe) 0
                                     (if int n \<le> num_patches pe then t else 0) d))
            else Inl ShapeError)"
  proof -
    fix toks B n
    assume L: "Sequential_apply (to_patch_embedding pe) x = Inr toks"
      and sh: "shape toks = [B, n, nat dm]"
    have eq: "int n \<le> num_patches pe \<or> num_patches pe = 0 \<Longrightarrow>
        tab3 B (n + 1) (nat dm)
                   (\<lambda>b t d. (if t = 0 then pe_cls w 0 0 d else at3 toks b (t - 1) d)
                            + pe_pos w 0 (if n + 1 \<le> ?NP1 then t else 0) d)
        = tab3 B (n + 1) (nat dm)
                        (\<lambda>b t d. (if t = 0 then at3 (cls_token pe) 0 0 d
                                   else at3 toks b (t - 1) d)
                                 + at3 (pos_embedding pe) 0
                                     (if int n \<le> num_patches pe then t else 0) d)"
    proof (rule tab3_cong)
      fix b t d
      assume ok: "int n \<le> num_patches pe \<or> num_patches pe = 0"
        and b: "b < B" and t: "t < n + 1" and d: "d < nat dm"
      have cls: "at3 (cls_token pe) 0 0 d = pe_cls w 0 0 d"
        unfolding f(2) using d by (intro at3_tab3) auto
      let ?t = "if int n \<le> num_patches pe then t else 0"
      have "?t < ?NP1" using ok t f(4) by auto
      then have pos: "at3 (pos_embedding pe) 0 ?t d = pe_pos w 0 ?t d"
        unfolding f(3) using d by (intro at3_tab3) auto
      show "(if t = 0 then pe_cls w 0 0 d else at3 toks b (t - 1) d)
                            + pe_pos w 0 (if n + 1 \<le> ?NP1 then t else 0) d
            = (if t = 0 then at3 (cls_token pe) 0 0 d else at3 toks b (t - 1) d)
                + at3 (pos_embedding pe) 0 ?t d"
        unfolding cls pos c2 ..
    qed
    show "PatchEmbedding_forward pe x =
           (if int n \<le> num_patches pe \<or> num_patches pe = 0
            then Inr (tab3 B (n + 1) (nat dm)
                        (\<lambda>b t d. (if t = 0 then at3 (cls_token pe) 0 0 d
                                   else at3 toks b (t - 1) d)
                                 + at3 (pos_embedding pe) 0
                                     (if int n \<le> num_patches pe then t else 0) d))
            else Inl ShapeError)"
      unfolding PatchEmbedding_forward_char[OF L f(2) f(3) sh] c1 using eq by simp
  qed
  have iff: "PatchEmbedding_forward pe x = Inr y \<longleftrightarrow>
            (\<exists>toks B n. Sequential_apply (to_patch_embedding pe) x = Inr toks
               \<and> shape toks = [B, n, nat dm]
               \<and> (int n \<le> num_patches pe \<or> num_patches pe = 0)
               \<and> y = tab3 B (n + 1) (nat dm)
                        (\<lambda>b t d. (if t = 0 then at3 (cls_token pe) 0 0 d
                                   else at3 toks b (t - 1) d)
                                 + at3 (pos_embedding pe) 0
                                     (if int n \<le> num_patches pe then t else 0) d))"
    (is "?L \<longleftrightarrow> ?R")
  proof
    assume L: ?L
    then obtain toks where t: "Sequential_apply (to_patch_embedding pe) x = Inr toks"
      by (auto simp: PatchEmbedding_forward_def bind_res_eq_Inr)
    from shape_toks[OF t] obtain B n where sh: "shape toks = [B, n, nat dm]" by blast
    from char[OF t sh] L t sh show ?R by (auto split: if_splits)
  next
    assume ?R
    then obtain toks B n where t: "Sequential_apply (to_patch_embedding pe) x = Inr toks"
      and sh: "shape toks = [B, n, nat dm]"
      and ok: "int n \<le> num_patches pe \<or> num_patches pe = 0"
      and y: "y = tab3 B (n + 1) (nat dm)
                        (\<lambda>b t d. (if t = 0 then at3 (cls_token pe) 0 0 d
                                   else at3 toks b (t - 1) d)
                                 + at3 (pos_embedding pe) 0
                                     (if int n \<le> num_patches pe then t else 0) d)"
      by blast
    show ?L unfolding char[OF t sh] using ok y by simp
  qed
  have cfg: "\<forall>toks B n. Sequential_apply (to_patch_embedding pe) x = Inr toks
               \<and> shape toks = [B, n, nat dm]
               \<and> int (shape x ! 2) = image_height pe \<and> int (shape x ! 3) = image_width pe
             \<longrightarrow> int n = num_patches pe"
  proof (intro allI impI, elim conjE)
    fix toks B n
    assume L: "Sequential_apply (to_patch_embedding pe) x = Inr toks"
      and sh: "shape toks = [B, n, nat dm]"
      and H: "int (shape x ! 2) = image_height pe" and W: "int (shape x ! 3) = image_width pe"
    from L obtain B' C' H' W' where shx: "shape x = [B', C', H', W']"
      and pos: "0 < patch_height pe" "0 < patch_width pe"
      and toks: "toks = tab3 B' ((H' div nat (patch_height pe)) * (W' div nat (patch_width pe)))
                   (nat dm)
                   (\<lambda>b t d. pe_norm2 w (map (pe_linear w (map (pe_norm1 w
                       (map (patch_elem x (nat (patch_height pe)) (nat (patch_width pe)) b t)
                          [0..<nat (patch_dim pe)])) [0..<nat (patch_dim pe)])) [0..<nat dm]) d)"
      unfolding f(1) to_patch_embedding_Inr by (elim exE conjE)
    from sh toks have n: "n = (H' div nat (patch_height pe)) * (W' div nat (patch_width pe))"
      by simp
    show "int n = num_patches pe"
      using pos H W by (simp add: n f(10) int_div_nat shx)
  qed
  have steps: "to_patch_embedding pe =
           [Rearrange (patch_height pe) (patch_width pe),
            LayerNorm (nat (patch_dim pe)) (pe_norm1 w),
            Linear (nat (patch_dim pe)) (nat dm) (pe_linear w),
            LayerNorm (nat dm) (pe_norm2 w)]
       \<and> shape (cls_token pe) = [1, 1, nat dm]
       \<and> shape (pos_embedding pe) = [1, nat (num_patches pe + 1), nat dm]"
    using f(1) by (simp add: f(2) f(3))
  from steps iff cfg show ?thesis by (intro conjI) (elim conjE, assumption)+
qed

theorem PatchEmbedding_forward_steps_witness:
  "PatchEmbedding_init ev_sample sample_pe_params 1 1 (PyStr ''(2, 2)'') (PyStr ''(1, 1)'')
     = Inr sample_pe
   \<and> PatchEmbedding_forward sample_pe sample_image = Inr (Tensor [1, 5, 1] [10, 2, 4, 6, 8])
   \<and> (\<exists>toks B n. Sequential_apply (to_patch_embedding sample_pe) sample_image = Inr toks
               \<and> shape toks = [B, n, nat 1]
               \<and> (int n \<le> num_patches sample_pe \<or> num_patches sample_pe = 0)
               \<and> Tensor [1, 5, 1] [10, 2, 4, 6, 8] = tab3 B (n + 1) (nat 1)
                        (\<lambda>b t d. (if t = 0 then at3 (cls_token sample_pe) 0 0 d
                                   else at3 toks b (t - 1) d)
                                 + at3 (pos_embedding sample_pe) 0
                                     (if int n \<le> num_patches sample_pe then t else 0) d))
   \<and> Sequential_apply (to_patch_embedding sample_pe) sample_image
       = Inr (Tensor [1, 4, 1] [1, 2, 3, 4])
   \<and> shape (Tensor [1, 4, 1] [1, 2, 3, 4 :: real]) = [1, 4, nat 1]
   \<and> int (shape sample_image ! 2) = image_height sample_pe
   \<and> int (shape sample_image ! 3) = image_width sample_pe
   \<and> int 4 = num_patches sample_pe
   \<and> cls_token sample_pe = Tensor [1, 1, 1] [10]
   \<and> pos_embedding sample_pe = Tensor [1, 5, 1] [0, 1, 2, 3, 4]"
proof -
  have t: "Sequential_apply (to_patch_embedding sample_pe) sample_image
       = Inr (Tensor [1, 4, 1] [1, 2, 3, 4])"
    by code_simp
  have c: "cls_token sample_pe = Tensor [1, 1, 1] [10]" by code_simp
  have p: "pos_embedding sample_pe = Tensor [1, 5, 1] [0, 1, 2, 3, 4]" by code_simp
  have s: "shape (Tensor [1, 4, 1] [1, 2, 3, 4 :: real]) = [1, 4, nat 1]" by simp
  have h: "int (shape sample_image ! 2) = image_height sample_pe" by code_simp
  have w: "int (shape sample_image ! 3) = image_width sample_pe" by code_simp
  have n: "int 4 = num_patches sample_pe"
    using PatchEmbedding_forward_steps[OF sample_pe_init, of sample_image,
        THEN conjunct2, THEN conjunct2, THEN conjunct2, THEN conjunct2] t s h w
    by blast
  from PatchEmbedding_forward_steps[OF sample_pe_init, THEN conjunct2, THEN conjunct2,
      THEN conjunct2, THEN conjunct1, THEN iffD1, OF sample_pe_forward_code]
    sample_pe_init sample_pe_forward_code t s h w n c p
  show ?thesis by (intro conjI)
qed

text \<open>
  Claim C5 as stated says that the positional embedding is added to all
  \<open>num_patches + 1\<close> positions of every input.  It fails on an input smaller than the
  configured image: a PatchEmbedding configured for a 3 by 3 image and 1 by 1 patches has
  \<open>num_patches = 9\<close> and a positional embedding of 10 rows, and on a 2 by 2 image it
  returns 5 positions, with the first 5 rows added.
\<close>

theorem PatchEmbedding_forward_steps_counterexample:
  "PatchEmbedding_init ev_sample sample_pe_params 1 1 (PyStr ''(3, 3)'') (PyStr ''(1, 1)'')
     = Inr sample_pe9
   \<and> num_patches sample_pe9 = 9
   \<and> pos_embedding sample_pe9 = Tensor [1, 10, 1] [0, 1, 2, 3, 4, 5, 6, 7, 8, 9]
   \<and> shape sample_image = [1, 1, 2, 2]
   \<and> PatchEmbedding_forward sample_pe9 sample_image = Inr (Tensor [1, 5, 1] [10, 2, 4, 6, 8])"
proof -
  have a: "num_patches sample_pe9 = 9" by code_simp
  have b: "pos_embedding sample_pe9 = Tensor [1, 10, 1] [0, 1, 2, 3, 4, 5, 6, 7, 8, 9]"
    by code_simp
  have c: "shape sample_image = [1, 1, 2, 2]" by (simp add: sample_image_def)
  have d: "PatchEmbedding_forward sample_pe9 sample_image
             = Inr (Tensor [1, 5, 1] [10, 2, 4, 6, 8])"
    by code_simp
  from sample_pe9_init a b c d show ?thesis by (intro conjI)
qed

lemma PatchEmbedding_forward_error:
  fixes w :: "'a::plus PatchEmbedding_params"
  assumes init: "PatchEmbedding_init ev w c dm img patch = Inr pe"
    and err: "PatchEmbedding_forward pe x = Inl e"
  shows "e = ShapeError"
proof -
  note f = PatchEmbedding_init_fields[OF init]
  show ?thesis
  proof (cases "Sequential_apply (to_patch_embedding pe) x")
    case (Inr toks)
    then obtain B n where sh: "shape toks = [B, n, nat dm]"
      unfolding f(1) to_patch_embedding_Inr by auto
    from err show ?thesis
      unfolding PatchEmbedding_forward_char[OF Inr f(2) f(3) sh] by (simp split: if_splits)
  next
    case (Inl e')
    then have e': "e' = ShapeError"
      unfolding f(1) using f(7) f(8)
      by (auto simp: bind_res_def Rearrange_apply_def row_layer_def Let_def
            split: sum.splits list.splits if_splits)
    from err Inl have "e = e'" by (simp add: PatchEmbedding_forward_def)
    with e' show ?thesis by simp
  qed
qed

text \<open>
  Claim C10, as amended.  The forward of a constructed PatchEmbedding returns exactly
  under \<open>forward_precondition\<close>: the input has shape \<open>[B, in_channels, H, W]\<close>, the patch
  height and width are positive and divide \<open>H\<close> and \<open>W\<close>, and the number of patches of the
  input is at most \<open>num_patches\<close>, or \<open>num_patches\<close> is 0 (the positional embedding then has
  one row, which is broadcast to every position).  Otherwise it fails with a shape error.
\<close>

theorem PatchEmbedding_forward_total_iff:
  fixes w :: "'a::plus PatchEmbedding_params"
  assumes init: "PatchEmbedding_init ev w c dm img patch = Inr pe"
  shows "PatchEmbedding_forward pe x =
           (if forward_precondition c pe x
            then Inr (tab3 (shape x ! 0) (nat (num_input_patches pe x) + 1) (nat dm)
                        (embedded w pe x))
            else Inl ShapeError)"
proof (cases "forward_precondition c pe x")
  case True
  then obtain B C H W where sh: "shape x = [B, C, H, W]"
    unfolding forward_precondition_def length4 by blast
  from True have pos: "0 < patch_height pe" "0 < patch_width pe"
    and C: "int C = c"
    and dv: "int H mod patch_height pe = 0" "int W mod patch_width pe = 0"
    and np: "num_input_patches pe x \<le> num_patches pe \<or> num_patches pe = 0"
    unfolding forward_precondition_def sh by (auto simp: mod_eq_0_iff_dvd)
  have n: "num_input_patches pe x
           = int ((H div nat (patch_height pe)) * (W div nat (patch_width pe)))"
    using pos by (simp add: num_input_patches_def sh int_div_nat)
  have "PatchEmbedding_forward pe x
          = Inr (tab3 B ((H div nat (patch_height pe)) * (W div nat (patch_width pe)) + 1)
                   (nat dm) (embedded w pe x))"
    unfolding PatchEmbedding_forward_Inr[OF init] using sh pos C dv np unfolding n by auto
  moreover have "nat (num_input_patches pe x)
                 = (H div nat (patch_height pe)) * (W div nat (patch_width pe))"
    unfolding n by (rule nat_int)
  ultimately show ?thesis using True by (simp add: sh)
next
  case False
  have "\<not> (\<exists>y. PatchEmbedding_forward pe x = Inr y)"
  proof
    assume "\<exists>y. PatchEmbedding_forward pe x = Inr y"
    then obtain y B C H W where sh: "shape x = [B, C, H, W]" and C: "int C = c"
      and pos: "0 < patch_height pe" "0 < patch_width pe"
      and dv: "int H mod patch_height pe = 0" "int W mod patch_width pe = 0"
      and np: "int ((H div nat (patch_height pe)) * (W div nat (patch_width pe))) \<le> num_patches pe
                \<or> num_patches pe = 0"
      unfolding PatchEmbedding_forward_Inr[OF init] by (elim exE conjE)
    have n: "num_input_patches pe x
           = int ((H div nat (patch_height pe)) * (W div nat (patch_width pe)))"
      using pos by (simp add: num_input_patches_def sh int_div_nat)
    have "forward_precondition c pe x"
      unfolding forward_precondition_def n using sh C pos dv np
      by (auto simp: mod_eq_0_iff_dvd)
    with False show False by simp
  qed
  then obtain e where e: "PatchEmbedding_forward pe x = Inl e"
    by (cases "PatchEmbedding_forward pe x") auto
  from PatchEmbedding_forward_error[OF init e] e False show ?thesis by simp
qed

lemma sample_pe12_init:
  "PatchEmbedding_init ev_sample sample_pe_params 1 1 (PyStr ''(1, 1)'') (PyStr ''(2, 2)'')
     = Inr sample_pe12"
  by (simp add: sample_pe12_def PatchEmbedding_init_def py_eval_def ev_sample_def unpack2_def
      py_floordiv_def LayerNorm_init_def Linear_init_def randn3_def)

lemma sample_pe33_init:
  "PatchEmbedding_init ev_sample sample_pe_params 1 1 (PyStr ''(3, 3)'') (PyStr ''(2, 2)'')
     = Inr sample_pe33"
  by (simp add: sample_pe33_def PatchEmbedding_init_def py_eval_def ev_sample_def unpack2_def
      py_floordiv_def LayerNorm_init_def Linear_init_def randn3_def)

theorem PatchEmbedding_forward_total_iff_witness:
  "PatchEmbedding_init ev_sample sample_pe_params 1 1 (PyStr ''(2, 2)'') (PyStr ''(1, 1)'')
     = Inr sample_pe
   \<and> forward_precondition 1 sample_pe sample_image
   \<and> PatchEmbedding_forward sample_pe sample_image
       = Inr (tab3 (shape sample_image ! 0) (nat (num_input_patches sample_pe sample_image) + 1)
                (nat 1) (embedded sample_pe_params sample_pe sample_image))
   \<and> PatchEmbedding_forward sample_pe sample_image = Inr (Tensor [1, 5, 1] [10, 2, 4, 6, 8])
   \<and> \<not> forward_precondition 1 sample_pe sample_image33
   \<and> PatchEmbedding_forward sample_pe sample_image33 = Inl ShapeError"
proof -
  have p: "forward_precondition 1 sample_pe sample_image" by code_simp
  have q: "\<not> forward_precondition 1 sample_pe sample_image33" by code_simp
  have a: "PatchEmbedding_forward sample_pe sample_image
       = Inr (tab3 (shape sample_image ! 0) (nat (num_input_patches sample_pe sample_image) + 1)
                (nat 1) (embedded sample_pe_params sample_pe sample_image))"
    using PatchEmbedding_forward_total_iff[OF sample_pe_init, of sample_image] p by simp
  have b: "PatchEmbedding_forward sample_pe sample_image33 = Inl ShapeError"
    using PatchEmbedding_forward_total_iff[OF sample_pe_init, of sample_image33] q by simp
  from sample_pe_init p a sample_pe_forward_code q b show ?thesis by (intro conjI)
qed

text \<open>
  Claim C10 as stated (\<open>claimed_precondition\<close>) fails when \<open>num_patches = 0\<close>: a
  PatchEmbedding configured for a 1 by 1 image and 2 by 2 patches accepts a 2 by 2 image,
  which has one patch, more than \<open>num_patches\<close>; the one row of the positional embedding
  is added to both positions.
\<close>

theorem PatchEmbedding_forward_total_iff_counterexample:
  "PatchEmbedding_init ev_sample sample_pe_params 1 1 (PyStr ''(1, 1)'') (PyStr ''(2, 2)'')
     = Inr sample_pe12
   \<and> num_patches sample_pe12 = 0
   \<and> num_input_patches sample_pe12 sample_image = 1
   \<and> \<not> claimed_precondition 1 sample_pe12 sample_image
   \<and> PatchEmbedding_forward sample_pe12 sample_image = Inr (Tensor [1, 2, 1] [10, 10])"
proof -
  have a: "num_patches sample_pe12 = 0" by code_simp
  have b: "num_input_patches sample_pe12 sample_image = 1" by code_simp
  have c: "\<not> claimed_precondition 1 sample_pe12 sample_image" by code_simp
  have d: "PatchEmbedding_forward sample_pe12 sample_image = Inr (Tensor [1, 2, 1] [10, 10])"
    by code_simp
  from sample_pe12_init a b c d show ?thesis by (intro conjI)
qed

text \<open>
  Claim C6, as amended.  Let the patch height and width be positive and divide the
  image height and width.  Then for every input of shape \<open>[B, in_channels, H, W]\<close> with \<open>H\<close>
  and \<open>W\<close> the configured image height and width, forward returns a tensor of shape
  \<open>[B, N + 1, d_model]\<close> with \<open>N = (image_height // patch_height) * (image_width //
  patch_width) = num_patches\<close>; position \<open>t + 1\<close> is computed from one flattened patch of
  \<open>in_channels * patch_height * patch_width\<close> values, by LayerNorm, the linear projection to
  \<open>d_model\<close> and LayerNorm (\<open>patch_token\<close>), plus its positional embedding.
\<close>

theorem PatchEmbedding_forward_matching_image:
  fixes w :: "'a::plus PatchEmbedding_params"
  assumes init: "PatchEmbedding_init ev w c dm img patch = Inr pe"
    and sh: "shape x = [B, C, H, W]" and C: "int C = c"
    and H: "int H = image_height pe" and W: "int W = image_width pe"
    and pos: "0 < patch_height pe" "0 < patch_width pe"
    and dv: "patch_height pe dvd image_height pe" "patch_width pe dvd image_width pe"
  shows "num_patches pe = (image_height pe div patch_height pe) * (image_width pe div patch_width pe)
       \<and> patch_dim pe = c * patch_height pe * patch_width pe
       \<and> (\<exists>y. PatchEmbedding_forward pe x = Inr y
              \<and> shape y = [B, nat (num_patches pe) + 1, nat dm]
              \<and> (\<forall>b<B. \<forall>t<nat (num_patches pe). \<forall>d<nat dm.
                    at3 y b (t + 1) d =
                      patch_token w (nat dm)
                        (flat_patch x (nat (patch_height pe)) (nat (patch_width pe)) b t) d
                      + at3 (pos_embedding pe) 0 (t + 1) d)
              \<and> (\<forall>b t. length (flat_patch x (nat (patch_height pe)) (nat (patch_width pe)) b t)
                          = nat (patch_dim pe)))"
proof -
  note f = PatchEmbedding_init_fields[OF init]
  let ?P1 = "nat (patch_height pe)" and ?P2 = "nat (patch_width pe)"
  let ?n = "(H div ?P1) * (W div ?P2)"
  have n: "int ?n = num_patches pe"
    using pos by (simp add: f(10) int_div_nat H[symmetric] W[symmetric])
  have nn: "nat (num_patches pe) = ?n" unfolding n[symmetric] by (rule nat_int)
  have dv': "int H mod patch_height pe = 0" "int W mod patch_width pe = 0"
    using dv H W by (simp_all add: mod_eq_0_iff_dvd)
  define y where "y = tab3 B (?n + 1) (nat dm) (embedded w pe x)"
  have fw: "PatchEmbedding_forward pe x = Inr y"
    unfolding PatchEmbedding_forward_Inr[OF init] y_def using sh C pos dv' n by auto
  have shy: "shape y = [B, nat (num_patches pe) + 1, nat dm]"
    unfolding nn by (simp add: y_def)
  have len: "\<forall>b t. length (flat_patch x ?P1 ?P2 b t) = nat (patch_dim pe)"
    using pos f(6) C by (simp add: flat_patch_def sh f(9) nat_mult_distrib mult.commute)
  have el: "\<forall>b<B. \<forall>t<nat (num_patches pe). \<forall>d<nat dm.
               at3 y b (t + 1) d =
                 patch_token w (nat dm) (flat_patch x ?P1 ?P2 b t) d
                 + at3 (pos_embedding pe) 0 (t + 1) d"
  proof (intro allI impI)
    fix b t d assume b: "b < B" and t: "t < nat (num_patches pe)" and d: "d < nat dm"
    have t': "t + 1 < ?n + 1" using t nn by simp
    have "at3 y b (t + 1) d = embedded w pe x b (t + 1) d"
      unfolding y_def using b t' d by (rule at3_tab3)
    also have "\<dots> = patch_token w (nat dm) (flat_patch x ?P1 ?P2 b t) d + pe_pos w 0 (t + 1) d"
      using n by (simp add: embedded_def sh Let_def f(11))
    also have "pe_pos w 0 (t + 1) d = at3 (pos_embedding pe) 0 (t + 1) d"
    proof -
      have "t + 1 < nat (num_patches pe + 1)" using t by simp
      then show ?thesis unfolding f(3) using d by (simp add: at3_tab3)
    qed
    finally show "at3 y b (t + 1) d =
                 patch_token w (nat dm) (flat_patch x ?P1 ?P2 b t) d
                 + at3 (pos_embedding pe) 0 (t + 1) d" .
  qed
  from f(10) f(9) fw shy el len show ?thesis by blast
qed

theorem PatchEmbedding_forward_matching_image_witness:
  "PatchEmbedding_init ev_sample sample_pe_params 1 1 (PyStr ''(2, 2)'') (PyStr ''(1, 1)'')
     = Inr sample_pe
   \<and> shape sample_image = [1, 1, 2, 2] \<and> int 1 = 1
   \<and> int 2 = image_height sample_pe \<and> int 2 = image_width sample_pe
   \<and> 0 < patch_height sample_pe \<and> 0 < patch_width sample_pe
   \<and> patch_height sample_pe dvd image_height sample_pe
   \<and> patch_width sample_pe dvd image_width sample_pe
   \<and> num_patches sample_pe = 4
   \<and> (\<exists>y. PatchEmbedding_forward sample_pe sample_image = Inr y
          \<and> shape y = [1, nat (num_patches sample_pe) + 1, nat 1]
          \<and> (\<forall>b<1. \<forall>t<nat (num_patches sample_pe). \<forall>d<nat 1.
                at3 y b (t + 1) d =
                  patch_token sample_pe_params (nat 1)
                    (flat_patch sample_image (nat (patch_height sample_pe))
                       (nat (patch_width sample_pe)) b t) d
                  + at3 (pos_embedding sample_pe) 0 (t + 1) d)
          \<and> (\<forall>b t. length (flat_patch sample_image (nat (patch_height sample_pe))
                               (nat (patch_width sample_pe)) b t)
                      = nat (patch_dim sample_pe)))"
proof -
  have s: "shape sample_image = [1, 1, 2, 2]" by (simp add: sample_image_def)
  have i: "int 1 = 1" by simp
  have h: "int 2 = image_height sample_pe" by code_simp
  have w: "int 2 = image_width sample_pe" by code_simp
  have p1: "0 < patch_height sample_pe" by code_simp
  have p2: "0 < patch_width sample_pe" by code_simp
  have d1: "patch_height sample_pe dvd image_height sample_pe" by code_simp
  have d2: "patch_width sample_pe dvd image_width sample_pe" by code_simp
  have np: "num_patches sample_pe = 4" by code_simp
  from PatchEmbedding_forward_matching_image[OF sample_pe_init s i h w p1 p2 d1 d2,
      THEN conjunct2, THEN conjunct2] sample_pe_init s i h w p1 p2 d1 d2 np
  show ?thesis by (intro conjI)
qed

text \<open>
  Claim C6 as stated fails when a patch size does not divide the image size: with a 3
  by 3 image and 2 by 2 patches, \<open>num_patches = 1\<close>, and an input of the configured shape is
  rejected with a shape error, so there is no output of 2 tokens.
\<close>

theorem PatchEmbedding_forward_matching_image_counterexample:
  "PatchEmbedding_init ev_sample sample_pe_params 1 1 (PyStr ''(3, 3)'') (PyStr ''(2, 2)'')
     = Inr sample_pe33
   \<and> image_height sample_pe33 = 3 \<and> image_width sample_pe33 = 3
   \<and> patch_height sample_pe33 = 2 \<and> patch_width sample_pe33 = 2
   \<and> num_patches sample_pe33 = 1
   \<and> shape sample_image33 = [1, 1, 3, 3]
   \<and> PatchEmbedding_forward sample_pe33 sample_image33 = Inl ShapeError"
proof -
  have a: "image_height sample_pe33 = 3" by code_simp
  have b: "image_width sample_pe33 = 3" by code_simp
  have c: "patch_height sample_pe33 = 2" by code_simp
  have d: "patch_width sample_pe33 = 2" by code_simp
  have e: "num_patches sample_pe33 = 1" by code_simp
  have f: "shape sample_image33 = [1, 1, 3, 3]" by (simp add: sample_image33_def)
  have g: "PatchEmbedding_forward sample_pe33 sample_image33 = Inl ShapeError" by code_simp
  from sample_pe33_init a b c d e f g show ?thesis by (intro conjI)
qed

end
